theory Spec2Isabelle
  imports Main "HOL-Library.Word" "HOL-Library.AList"
begin

text \<open>
  A shallow embedding of the conversation-handling core of the remote coding agent:
  \<^verbatim>\<open>parseCommand\<close> and \<^verbatim>\<open>handleCommand\<close> of the command handler,
  \<^verbatim>\<open>normalizeCommand\<close> and \<^verbatim>\<open>handleMessage\<close> of the orchestrator, and the
  codebase module of the storage. Asynchronous functions are functions of an explicit
  world that return a result or the error they throw. The platform adapter, the AI
  client, the file system and the utility modules are an environment that the
  definitions take as a parameter. The conversation and session modules of the storage
  and the lock manager are not among the sources; they are modelled from the
  specification, and the definitions say so.
\<close>

section \<open>JavaScript strings\<close>

text \<open>
  A JavaScript string is a sequence of UTF-16 code units. The regular expressions of
  \<^verbatim>\<open>parseCommand\<close> and \<^verbatim>\<open>normalizeCommand\<close> have no \<^verbatim>\<open>u\<close> flag and so read
  code units; the tool-indicator expression of the orchestrator has the flag, and its
  alternatives are written below as the surrogate pairs they stand for.
\<close>

type_synonym jsstring = "16 word list"

definition js :: "string \<Rightarrow> jsstring" where
  "js s = map of_char s"

text \<open>The class \<^verbatim>\<open>\s\<close>, which is also what \<^verbatim>\<open>trim\<close> removes.\<close>

definition isWhiteSpace :: "16 word \<Rightarrow> bool" where
  "isWhiteSpace c \<longleftrightarrow>
     c = 0x09 \<or> c = 0x0A \<or> c = 0x0B \<or> c = 0x0C \<or> c = 0x0D \<or> c = 0x20 \<or> c = 0xA0
     \<or> c = 0x1680 \<or> (0x2000 \<le> c \<and> c \<le> 0x200A) \<or> c = 0x2028 \<or> c = 0x2029
     \<or> c = 0x202F \<or> c = 0x205F \<or> c = 0x3000 \<or> c = 0xFEFF"

definition nonSpace :: "16 word \<Rightarrow> bool" where
  "nonSpace c \<longleftrightarrow> \<not> isWhiteSpace c"

definition trim :: "jsstring \<Rightarrow> jsstring" where
  "trim s = rev (dropWhile isWhiteSpace (rev (dropWhile isWhiteSpace s)))"

definition startsWith :: "jsstring \<Rightarrow> jsstring \<Rightarrow> bool" where
  "startsWith s p \<longleftrightarrow> take (length p) s = p"

definition endsWith :: "jsstring \<Rightarrow> jsstring \<Rightarrow> bool" where
  "endsWith s p \<longleftrightarrow> length p \<le> length s \<and> drop (length s - length p) s = p"

text \<open>\<^verbatim>\<open>s.slice(1, -1)\<close>: without the first and the last code unit.\<close>

definition slice_1_m1 :: "jsstring \<Rightarrow> jsstring" where
  "slice_1_m1 s = butlast (tl s)"

text \<open>\<^verbatim>\<open>xs.join(sep)\<close>.\<close>

fun join :: "jsstring \<Rightarrow> jsstring list \<Rightarrow> jsstring" where
  "join sep [] = []"
| "join sep [x] = x"
| "join sep (x # y # ys) = x @ sep @ join sep (y # ys)"

definition dquote :: "16 word" where
  "dquote = 0x22"

definition squote :: "16 word" where
  "squote = 0x27"

definition slash :: "16 word" where
  "slash = 0x2F"

section \<open>The command handler: parseCommand\<close>

record parsed_command =
  command :: jsstring
  args :: "jsstring list"

text \<open>
  One alternative \<^verbatim>\<open>"[^"]+"\<close> (or the same with \<^verbatim>\<open>'\<close>) at the start of the input:
  the quote, a greedy non-empty run without the quote, the quote. The result is the
  match and the input after it.
\<close>

fun match_quoted :: "16 word \<Rightarrow> jsstring \<Rightarrow> (jsstring \<times> jsstring) option" where
  "match_quoted q [] = None"
| "match_quoted q (c # cs) =
     (if c \<noteq> q then None
      else let body = takeWhile (\<lambda>x. x \<noteq> q) cs; rest = dropWhile (\<lambda>x. x \<noteq> q) cs
           in if body \<noteq> [] \<and> rest \<noteq> [] then Some (q # body @ [q], tl rest) else None)"

text \<open>The alternative \<^verbatim>\<open>\S+\<close> at the start of the input.\<close>

definition match_nonspace :: "jsstring \<Rightarrow> (jsstring \<times> jsstring) option" where
  "match_nonspace s =
     (let tok = takeWhile nonSpace s
      in if tok = [] then None else Some (tok, dropWhile nonSpace s))"

text \<open>\<^verbatim>\<open>/"[^"]+"|'[^']+'|\S+/\<close> at the start of the input: the first alternative that matches.\<close>

definition match_token :: "jsstring \<Rightarrow> (jsstring \<times> jsstring) option" where
  "match_token s =
     (case match_quoted dquote s of
        Some r \<Rightarrow> Some r
      | None \<Rightarrow>
          (case match_quoted squote s of
             Some r \<Rightarrow> Some r
           | None \<Rightarrow> match_nonspace s))"

lemma match_quoted_shorter:
  "match_quoted q s = Some (tok, rest) \<Longrightarrow> length rest < length s"
proof (cases s)
  case Nil
  assume "match_quoted q s = Some (tok, rest)"
  with Nil show ?thesis by simp
next
  case (Cons c cs)
  assume m: "match_quoted q s = Some (tok, rest)"
  have "length (dropWhile (\<lambda>x. x \<noteq> q) cs) \<le> length cs"
    by (rule length_dropWhile_le)
  with m Cons show ?thesis
    by (auto simp: Let_def split: if_splits)
qed

lemma match_nonspace_shorter:
  "match_nonspace s = Some (tok, rest) \<Longrightarrow> length rest < length s"
proof -
  assume m: "match_nonspace s = Some (tok, rest)"
  then have t: "takeWhile nonSpace s \<noteq> []" and r: "rest = dropWhile nonSpace s"
    by (auto simp: match_nonspace_def Let_def split: if_splits)
  have "length (takeWhile nonSpace s) + length (dropWhile nonSpace s) = length s"
    by (metis length_append takeWhile_dropWhile_id)
  with t r show ?thesis by (cases "takeWhile nonSpace s") auto
qed

lemma match_token_shorter:
  "match_token s = Some (tok, rest) \<Longrightarrow> length rest < length s"
  by (auto simp: match_token_def split: option.splits
           dest: match_quoted_shorter match_nonspace_shorter)

text \<open>
  \<^verbatim>\<open>text.match(/.../g)\<close>: all matches from left to right, each search starting where
  the last match ended; a position where no alternative matches is skipped.
\<close>

function match_all :: "jsstring \<Rightarrow> jsstring list" where
  "match_all s =
     (if s = [] then []
      else (case match_token s of
              None \<Rightarrow> match_all (tl s)
            | Some (tok, rest) \<Rightarrow> tok # match_all rest))"
  by pat_completeness auto
termination
  by (relation "measure length") (auto dest: match_token_shorter)

declare match_all.simps [simp del]

text \<open>Remove surrounding quotes if present.\<close>

definition strip_quotes :: "jsstring \<Rightarrow> jsstring" where
  "strip_quotes arg =
     (if (startsWith arg [dquote] \<and> endsWith arg [dquote])
         \<or> (startsWith arg [squote] \<and> endsWith arg [squote])
      then slice_1_m1 arg else arg)"

definition parseCommand :: "jsstring \<Rightarrow> parsed_command" where
  "parseCommand inp =
     (case match_all inp of
        [] \<Rightarrow> \<lparr>command = [], args = []\<rparr>
      | m # ms \<Rightarrow>
          if m = [] then \<lparr>command = [], args = []\<rparr>
          else \<lparr>command = drop 1 m, args = map strip_quotes ms\<rparr>)"

text \<open>
  The first whitespace-delimited token of a text, in the words of the specification:
  what stands between the leading white space and the next white space.
\<close>

definition first_ws_token :: "jsstring \<Rightarrow> jsstring" where
  "first_ws_token inp = takeWhile nonSpace (dropWhile isWhiteSpace inp)"

section \<open>More string operations\<close>

text \<open>
  The first occurrence of a separator: the text before it and the text after it.
  \<^verbatim>\<open>s.includes(sub)\<close> is str_includes below (includes is a keyword of Isabelle).
\<close>

fun split_at :: "jsstring \<Rightarrow> jsstring \<Rightarrow> (jsstring \<times> jsstring) option" where
  "split_at sep [] = (if sep = [] then Some ([], []) else None)"
| "split_at sep (c # cs) =
     (if startsWith (c # cs) sep then Some ([], drop (length sep) (c # cs))
      else map_option (\<lambda>(a, b). (c # a, b)) (split_at sep cs))"

definition str_includes :: "jsstring \<Rightarrow> jsstring \<Rightarrow> bool" where
  "str_includes s sub \<longleftrightarrow> split_at sub s \<noteq> None"

text \<open>
  \<^verbatim>\<open>s.replace(pat, rep)\<close> with a string pattern: the first occurrence only. (The
  replacement patterns \<^verbatim>\<open>$&\<close>, \<^verbatim>\<open>$1\<close> of JavaScript are not modelled; the
  replacements of the source are a literal and a GitHub token.)
\<close>

definition replace_first :: "jsstring \<Rightarrow> jsstring \<Rightarrow> jsstring \<Rightarrow> jsstring" where
  "replace_first pat rep s = (case split_at pat s of None \<Rightarrow> s | Some (a, b) \<Rightarrow> a @ rep @ b)"

lemma split_at_shorter:
  "split_at sep s = Some (a, b) \<Longrightarrow> sep \<noteq> [] \<Longrightarrow> length b < length s"
proof (induction s arbitrary: a)
  case Nil
  then show ?case by simp
next
  case (Cons c cs)
  show ?case
  proof (cases "startsWith (c # cs) sep")
    case True
    with Cons.prems show ?thesis by (cases sep) auto
  next
    case False
    with Cons.prems obtain a' where "split_at sep cs = Some (a', b)"
      by (auto split: prod.splits)
    with Cons.IH Cons.prems(2) show ?thesis by fastforce
  qed
qed

text \<open>\<^verbatim>\<open>s.split(sep)\<close> with a string separator.\<close>

function split_str :: "jsstring \<Rightarrow> jsstring \<Rightarrow> jsstring list" where
  "split_str sep s =
     (if sep = [] then map (\<lambda>c. [c]) s
      else (case split_at sep s of
              None \<Rightarrow> [s]
            | Some (a, b) \<Rightarrow> a # split_str sep b))"
  by pat_completeness auto
termination
  by (relation "measure (\<lambda>(sep, s). length s)") (auto dest: split_at_shorter)

declare split_str.simps [simp del]

lemma dropWhile_ws_shorter:
  "dropWhile nonSpace s \<noteq> [] \<Longrightarrow>
   length (dropWhile isWhiteSpace (dropWhile nonSpace s)) < length s"
proof -
  assume n: "dropWhile nonSpace s \<noteq> []"
  then obtain c cs where d: "dropWhile nonSpace s = c # cs"
    by (cases "dropWhile nonSpace s") auto
  then have "isWhiteSpace c"
    using hd_dropWhile [of nonSpace s] n by (auto simp: nonSpace_def)
  then have "length (dropWhile isWhiteSpace (c # cs)) \<le> length cs"
    by (simp add: length_dropWhile_le)
  moreover have "length (c # cs) \<le> length s"
    using d length_dropWhile_le [of nonSpace s] by simp
  ultimately show ?thesis using d by simp
qed

text \<open>\<^verbatim>\<open>s.split(/\s+/)\<close>.\<close>

function split_ws :: "jsstring \<Rightarrow> jsstring list" where
  "split_ws s =
     (if dropWhile nonSpace s = [] then [takeWhile nonSpace s]
      else takeWhile nonSpace s # split_ws (dropWhile isWhiteSpace (dropWhile nonSpace s)))"
  by pat_completeness auto
termination
proof (relation "measure length")
  show "wf (measure length)" by simp
next
  fix s :: jsstring
  assume "dropWhile nonSpace s \<noteq> []"
  then show "(dropWhile isWhiteSpace (dropWhile nonSpace s), s) \<in> measure length"
    using dropWhile_ws_shorter [of s] by simp
qed

declare split_ws.simps [simp del]

text \<open>
  \<^verbatim>\<open>toLowerCase\<close>, one code unit at a time: the ASCII capitals; the Kelvin sign, the
  one character outside ASCII whose lower case is an ASCII letter; the dotted capital I,
  whose lower case is two code units. The lower case of every other character outside
  ASCII is outside ASCII again, and the source only compares the result with ASCII
  words, so those are left as they are.
\<close>

definition toLowerUnit :: "16 word \<Rightarrow> jsstring" where
  "toLowerUnit c =
     (if 0x41 \<le> c \<and> c \<le> 0x5A then [c + 0x20]
      else if c = 0x212A then [0x6B]
      else if c = 0x0130 then [0x69, 0x0307]
      else [c])"

definition toLowerCase :: "jsstring \<Rightarrow> jsstring" where
  "toLowerCase s = concat (map toLowerUnit s)"

text \<open>A number in a template literal: its decimal digits.\<close>

function nat_to_str :: "nat \<Rightarrow> jsstring" where
  "nat_to_str n =
     (if n < 10 then [of_nat (48 + n)] else nat_to_str (n div 10) @ [of_nat (48 + n mod 10)])"
  by pat_completeness auto
termination
  by (relation "measure id") auto

declare nat_to_str.simps [simp del]

text \<open>
  The truthiness of an optional string: \<^verbatim>\<open>null\<close>, \<^verbatim>\<open>undefined\<close> and the empty
  string are falsy.
\<close>

fun truthy :: "jsstring option \<Rightarrow> bool" where
  "truthy None = False"
| "truthy (Some s) = (s \<noteq> [])"

text \<open>\<^verbatim>\<open>a || b\<close> on strings, and \<^verbatim>\<open>a || undefined\<close>.\<close>

definition or_else :: "jsstring option \<Rightarrow> jsstring \<Rightarrow> jsstring" where
  "or_else a b = (if truthy a then the a else b)"

definition or_undefined :: "jsstring option \<Rightarrow> jsstring option" where
  "or_undefined a = (if truthy a then a else None)"

section \<open>Records, the world and the environment\<close>

text \<open>A thrown \<^verbatim>\<open>Error\<close> with its message.\<close>

datatype exn = Error jsstring

fun exn_message :: "exn \<Rightarrow> jsstring" where
  "exn_message (Error m) = m"

text \<open>
  The record types of \<^verbatim>\<open>../types\<close>, with the fields the sources read and write.
\<close>

record conversation =
  conv_id :: jsstring
  conv_platform_type :: jsstring
  conv_platform_conversation_id :: jsstring
  conv_codebase_id :: "jsstring option"
  conv_cwd :: "jsstring option"
  conv_ai_assistant_type :: jsstring

record command_def =
  cmd_path :: jsstring
  cmd_description :: jsstring

type_synonym commands = "(jsstring \<times> command_def) list"

record codebase =
  cb_id :: jsstring
  cb_name :: jsstring
  cb_repository_url :: "jsstring option"
  cb_default_cwd :: jsstring
  cb_ai_assistant_type :: jsstring
  cb_commands :: commands

record session =
  sess_id :: jsstring
  sess_conversation_id :: jsstring
  sess_codebase_id :: "jsstring option"
  sess_ai_assistant_type :: jsstring
  assistant_session_id :: "jsstring option"
  sess_metadata :: "(jsstring \<times> jsstring) list"
  active :: bool

datatype chunk_type = Assistant | Tool | Result | System | Thinking

type_synonym tool_input = "(jsstring \<times> jsstring) list"

record message_chunk =
  chunk_type :: chunk_type
  content :: "jsstring option"
  toolName :: "jsstring option"
  toolInput :: tool_input
  sessionId :: "jsstring option"

record command_result =
  success :: bool
  res_message :: jsstring
  modified :: bool

text \<open>
  The world a message is handled in: the three tables of the storage, what the platform
  adapter has delivered, the queries the AI backend has received, and the number of
  collaborator calls made so far.
\<close>

record world =
  conversations :: "conversation list"
  codebases :: "codebase list"
  sessions :: "session list"
  sent :: "(jsstring \<times> jsstring) list"
  queries :: "(jsstring \<times> jsstring \<times> jsstring option) list"
  clock :: nat

text \<open>The calls to collaborators that can throw.\<close>

datatype effect =
    GetOrCreateConversation jsstring jsstring
  | UpdateConversation jsstring
  | CreateCodebase jsstring
  | GetCodebase jsstring
  | UpdateCodebaseCommands jsstring
  | GetCodebaseCommands jsstring
  | FindCodebaseByPath jsstring
  | GetActiveSession jsstring
  | CreateSession jsstring
  | DeactivateSession jsstring
  | UpdateSession jsstring jsstring
  | UpdateSessionMetadata jsstring
  | SendMessage jsstring jsstring
  | GetAssistantClient jsstring
  | SendQuery jsstring jsstring "jsstring option"
  | FormatToolCall jsstring
  | SubstituteVariables jsstring
  | ReadFile jsstring
  | WriteFile jsstring
  | Access jsstring
  | Readdir jsstring
  | Exec jsstring

text \<open>
  The environment: the platform adapter, the AI client, the file system, the process and
  the utility modules that are not part of the sources at hand. \<open>fault\<close> says which
  calls throw, and with what: it reads the call and the world, clock included, so every
  pattern of failures is an environment. A query answers with the chunks of its stream
  and, when the stream breaks off, the error it throws after them.
\<close>

record env =
  getPlatformType :: jsstring
  getStreamingMode :: jsstring
  fault :: "effect \<Rightarrow> world \<Rightarrow> exn option"
  sendQuery :: "jsstring \<Rightarrow> jsstring \<Rightarrow> jsstring \<Rightarrow> jsstring option
                  \<Rightarrow> message_chunk list \<times> exn option"
  formatToolCall :: "jsstring \<Rightarrow> tool_input \<Rightarrow> jsstring"
  substituteVariables :: "jsstring \<Rightarrow> jsstring list \<Rightarrow> jsstring"
  pathJoin :: "jsstring \<Rightarrow> jsstring \<Rightarrow> jsstring"
  fileText :: "jsstring \<Rightarrow> jsstring"
  markdownFiles :: "jsstring \<Rightarrow> (jsstring \<times> jsstring) list"
  directories :: "jsstring \<Rightarrow> jsstring list"
  ghToken :: "jsstring option"
  uuid :: "world \<Rightarrow> jsstring"
  defaultAssistant :: jsstring

section \<open>Asynchronous code as state passing with exceptions\<close>

text \<open>
  An \<^verbatim>\<open>async\<close> function is a function of the world that returns its result, or the
  error it throws, and the world it leaves. What a call has done before it throws stays
  done.
\<close>

type_synonym 'a io = "world \<Rightarrow> (exn + 'a) \<times> world"

definition io_return :: "'a \<Rightarrow> 'a io" where
  "io_return x = (\<lambda>w. (Inr x, w))"

definition io_throw :: "exn \<Rightarrow> 'a io" where
  "io_throw e = (\<lambda>w. (Inl e, w))"

definition io_bind :: "'a io \<Rightarrow> ('a \<Rightarrow> 'b io) \<Rightarrow> 'b io" where
  "io_bind m f = (\<lambda>w. case m w of (Inl e, w') \<Rightarrow> (Inl e, w') | (Inr x, w') \<Rightarrow> f x w')"

text \<open>\<^verbatim>\<open>try { m } catch (error) { h(error) }\<close>.\<close>

definition io_catch :: "'a io \<Rightarrow> (exn \<Rightarrow> 'a io) \<Rightarrow> 'a io" where
  "io_catch m h = (\<lambda>w. case m w of (Inl e, w') \<Rightarrow> h e w' | (Inr x, w') \<Rightarrow> (Inr x, w'))"

text \<open>A call to a collaborator: it counts, and it throws when the environment says so.\<close>

definition tick :: "world \<Rightarrow> world" where
  "tick w = w\<lparr>clock := Suc (clock w)\<rparr>"

definition call :: "env \<Rightarrow> effect \<Rightarrow> 'a io \<Rightarrow> 'a io" where
  "call env ef m =
     (\<lambda>w. case fault env ef w of Some e \<Rightarrow> (Inl e, tick w) | None \<Rightarrow> m (tick w))"

text \<open>\<^verbatim>\<open>try { await f(); ok = true } catch { ok = false }\<close> for a call without a result.\<close>

definition succeeds :: "env \<Rightarrow> effect \<Rightarrow> bool io" where
  "succeeds env ef = (\<lambda>w. (Inr (fault env ef w = None), tick w))"

section \<open>The platform adapter and the AI client\<close>

definition sendMessage :: "env \<Rightarrow> jsstring \<Rightarrow> jsstring \<Rightarrow> unit io" where
  "sendMessage env conversationId msg =
     call env (SendMessage conversationId msg)
       (\<lambda>w. (Inr (), w\<lparr>sent := sent w @ [(conversationId, msg)]\<rparr>))"

text \<open>
  \<^verbatim>\<open>getAssistantClient(type)\<close> of \<^verbatim>\<open>../clients/factory\<close>: the client is named by
  its type here, and the call may throw.
\<close>

definition getAssistantClient :: "env \<Rightarrow> jsstring \<Rightarrow> jsstring io" where
  "getAssistantClient env assistantType =
     call env (GetAssistantClient assistantType) (io_return assistantType)"

text \<open>
  \<^verbatim>\<open>aiClient.sendQuery(prompt, cwd, resumeSessionId)\<close>: the query is on record when the
  stream is opened.
\<close>

definition openQuery ::
  "env \<Rightarrow> jsstring \<Rightarrow> jsstring \<Rightarrow> jsstring \<Rightarrow> jsstring option
     \<Rightarrow> (message_chunk list \<times> exn option) io" where
  "openQuery env aiClient prompt cwd resume =
     call env (SendQuery prompt cwd resume)
       (\<lambda>w. (Inr (sendQuery env aiClient prompt cwd resume),
              w\<lparr>queries := queries w @ [(prompt, cwd, resume)]\<rparr>))"

definition formatToolCall_io :: "env \<Rightarrow> jsstring \<Rightarrow> tool_input \<Rightarrow> jsstring io" where
  "formatToolCall_io env name inp =
     call env (FormatToolCall name) (io_return (formatToolCall env name inp))"

definition substituteVariables_io :: "env \<Rightarrow> jsstring \<Rightarrow> jsstring list \<Rightarrow> jsstring io" where
  "substituteVariables_io env txt as =
     call env (SubstituteVariables txt) (io_return (substituteVariables env txt as))"

definition readFile :: "env \<Rightarrow> jsstring \<Rightarrow> jsstring io" where
  "readFile env path = call env (ReadFile path) (io_return (fileText env path))"

definition writeFile :: "env \<Rightarrow> jsstring \<Rightarrow> jsstring \<Rightarrow> unit io" where
  "writeFile env path txt = call env (WriteFile path) (io_return ())"

definition execAsync :: "env \<Rightarrow> jsstring \<Rightarrow> unit io" where
  "execAsync env cmd = call env (Exec cmd) (io_return ())"

section \<open>The storage\<close>

subsection \<open>Conversations\<close>

text \<open>
  Modelled from the spec: the module \<^verbatim>\<open>../db/conversations\<close> is not among the sources.
  A conversation is a persistent record keyed by platform type and conversation key,
  created on first contact, with its codebase and its working directory optional.
\<close>

definition getOrCreateConversation :: "env \<Rightarrow> jsstring \<Rightarrow> jsstring \<Rightarrow> conversation io" where
  "getOrCreateConversation env platformType conversationId =
     call env (GetOrCreateConversation platformType conversationId)
       (\<lambda>w. case find (\<lambda>c. conv_platform_type c = platformType
                              \<and> conv_platform_conversation_id c = conversationId)
                   (conversations w) of
               Some c \<Rightarrow> (Inr c, w)
             | None \<Rightarrow>
                 (let c = \<lparr>conv_id = uuid env w, conv_platform_type = platformType,
                           conv_platform_conversation_id = conversationId,
                           conv_codebase_id = None, conv_cwd = None,
                           conv_ai_assistant_type = defaultAssistant env\<rparr>
                  in (Inr c, w\<lparr>conversations := conversations w @ [c]\<rparr>)))"

text \<open>
  Modelled from the spec: \<^verbatim>\<open>updateConversation(id, {cwd, codebase_id})\<close>, mutating the
  record on a change of codebase or working directory. A field that the call does not
  give is \<open>None\<close> here and stays as it is.
\<close>

definition updateConversation ::
  "env \<Rightarrow> jsstring \<Rightarrow> jsstring option \<Rightarrow> jsstring option \<Rightarrow> unit io" where
  "updateConversation env cid newCwd newCodebase =
     call env (UpdateConversation cid)
       (\<lambda>w. (Inr (),
              w\<lparr>conversations :=
                  map (\<lambda>c. if conv_id c = cid
                            then c\<lparr>conv_cwd := (case newCwd of None \<Rightarrow> conv_cwd c | Some d \<Rightarrow> Some d),
                                   conv_codebase_id :=
                                     (case newCodebase of None \<Rightarrow> conv_codebase_id c
                                      | Some b \<Rightarrow> Some b)\<rparr>
                            else c)
                      (conversations w)\<rparr>))"

subsection \<open>Codebases\<close>

text \<open>
  The module \<^verbatim>\<open>db/codebases\<close>: each function is one SQL statement on the table of
  codebases. A new row has no commands.
\<close>

definition createCodebase ::
  "env \<Rightarrow> jsstring \<Rightarrow> jsstring option \<Rightarrow> jsstring \<Rightarrow> jsstring option \<Rightarrow> codebase io" where
  "createCodebase env name repository_url default_cwd ai_assistant_type =
     call env (CreateCodebase name)
       (\<lambda>w. let assistantType = or_else ai_assistant_type (js ''claude'');
                 row = \<lparr>cb_id = uuid env w, cb_name = name,
                         cb_repository_url = or_undefined repository_url,
                         cb_default_cwd = default_cwd, cb_ai_assistant_type = assistantType,
                         cb_commands = []\<rparr>
             in (Inr row, w\<lparr>codebases := codebases w @ [row]\<rparr>))"

definition getCodebase :: "env \<Rightarrow> jsstring \<Rightarrow> codebase option io" where
  "getCodebase env cid =
     call env (GetCodebase cid) (\<lambda>w. (Inr (find (\<lambda>c. cb_id c = cid) (codebases w)), w))"

definition updateCodebaseCommands :: "env \<Rightarrow> jsstring \<Rightarrow> commands \<Rightarrow> unit io" where
  "updateCodebaseCommands env cid cmds =
     call env (UpdateCodebaseCommands cid)
       (\<lambda>w. (Inr (),
              w\<lparr>codebases :=
                  map (\<lambda>c. if cb_id c = cid then c\<lparr>cb_commands := cmds\<rparr> else c) (codebases w)\<rparr>))"

definition getCodebaseCommands :: "env \<Rightarrow> jsstring \<Rightarrow> commands io" where
  "getCodebaseCommands env cid =
     call env (GetCodebaseCommands cid)
       (\<lambda>w. (Inr (case find (\<lambda>c. cb_id c = cid) (codebases w) of
                     None \<Rightarrow> [] | Some c \<Rightarrow> cb_commands c), w))"

text \<open>
  The commands of a codebase are a plain object, held here as the list of its own
  properties in the order of their creation. \<^verbatim>\<open>commands[name] = command\<close> sets an
  own property, except under the name \<^verbatim>\<open>__proto__\<close>: unless the object has an own
  property of that name, the assignment reaches the setter that every object inherits,
  which replaces the prototype and creates no property, so that \<^verbatim>\<open>JSON.stringify\<close>
  writes the object as it was.
\<close>

definition assignProperty ::
  "jsstring \<Rightarrow> 'a \<Rightarrow> (jsstring \<times> 'a) list \<Rightarrow> (jsstring \<times> 'a) list" where
  "assignProperty name v obj =
     (if name = js ''__proto__'' \<and> map_of obj name = None then obj
      else AList.update name v obj)"

text \<open>
  \<^verbatim>\<open>Object.entries\<close> lists the own properties whose names are array indices first,
  in ascending numeric order, and then the others in the order of their creation. An
  array index is the decimal numeral, without leading zeros, of a number below
  \<open>2\<^sup>3\<^sup>2 - 1\<close>.
\<close>

definition isDigit :: "16 word \<Rightarrow> bool" where
  "isDigit c \<longleftrightarrow> 0x30 \<le> c \<and> c \<le> 0x39"

definition digitsValue :: "jsstring \<Rightarrow> nat" where
  "digitsValue s = foldl (\<lambda>n c. 10 * n + (unat c - 48)) 0 s"

definition isArrayIndex :: "jsstring \<Rightarrow> bool" where
  "isArrayIndex s \<longleftrightarrow>
     s \<noteq> [] \<and> list_all isDigit s \<and> (hd s \<noteq> 0x30 \<or> length s = 1)
     \<and> digitsValue s < 4294967295"

definition objectEntries :: "(jsstring \<times> 'a) list \<Rightarrow> (jsstring \<times> 'a) list" where
  "objectEntries obj =
     sort_key (\<lambda>p. digitsValue (fst p)) (filter (\<lambda>p. isArrayIndex (fst p)) obj)
     @ filter (\<lambda>p. \<not> isArrayIndex (fst p)) obj"

definition registerCommand :: "env \<Rightarrow> jsstring \<Rightarrow> jsstring \<Rightarrow> command_def \<Rightarrow> unit io" where
  "registerCommand env cid name cmd =
     io_bind (getCodebaseCommands env cid)
       (\<lambda>cmds. updateCodebaseCommands env cid (assignProperty name cmd cmds))"

definition findCodebaseByPath :: "env \<Rightarrow> jsstring \<Rightarrow> codebase option io" where
  "findCodebaseByPath env path =
     call env (FindCodebaseByPath path)
       (\<lambda>w. (Inr (find (\<lambda>c. cb_default_cwd c = path) (codebases w)), w))"

subsection \<open>Sessions\<close>

text \<open>
  Modelled from the spec: the module \<^verbatim>\<open>../db/sessions\<close> is not among the sources.
  A session has its owning conversation, its codebase, its assistant type, a resumable
  token that is absent until the backend first reports one, a metadata mapping and an
  active flag. A session is created active; it is deactivated, never deleted.
\<close>

definition getActiveSession :: "env \<Rightarrow> jsstring \<Rightarrow> session option io" where
  "getActiveSession env conversationId =
     call env (GetActiveSession conversationId)
       (\<lambda>w. (Inr (find (\<lambda>s. sess_conversation_id s = conversationId \<and> active s) (sessions w)),
              w))"

definition createSession ::
  "env \<Rightarrow> jsstring \<Rightarrow> jsstring option \<Rightarrow> jsstring \<Rightarrow> session io" where
  "createSession env conversation_id codebase_id ai_assistant_type =
     call env (CreateSession conversation_id)
       (\<lambda>w. let row = \<lparr>sess_id = uuid env w, sess_conversation_id = conversation_id,
                         sess_codebase_id = codebase_id,
                         sess_ai_assistant_type = ai_assistant_type,
                         assistant_session_id = None, sess_metadata = [], active = True\<rparr>
             in (Inr row, w\<lparr>sessions := sessions w @ [row]\<rparr>))"

definition deactivateSession :: "env \<Rightarrow> jsstring \<Rightarrow> unit io" where
  "deactivateSession env sid =
     call env (DeactivateSession sid)
       (\<lambda>w. (Inr (),
              w\<lparr>sessions :=
                  map (\<lambda>s. if sess_id s = sid then s\<lparr>active := False\<rparr> else s) (sessions w)\<rparr>))"

definition updateSession :: "env \<Rightarrow> jsstring \<Rightarrow> jsstring \<Rightarrow> unit io" where
  "updateSession env sid token =
     call env (UpdateSession sid token)
       (\<lambda>w. (Inr (),
              w\<lparr>sessions :=
                  map (\<lambda>s. if sess_id s = sid then s\<lparr>assistant_session_id := Some token\<rparr> else s)
                      (sessions w)\<rparr>))"

definition updateSessionMetadata :: "env \<Rightarrow> jsstring \<Rightarrow> jsstring \<Rightarrow> jsstring \<Rightarrow> unit io" where
  "updateSessionMetadata env sid key v =
     call env (UpdateSessionMetadata sid)
       (\<lambda>w. (Inr (),
              w\<lparr>sessions :=
                  map (\<lambda>s. if sess_id s = sid
                            then s\<lparr>sess_metadata := AList.update key v (sess_metadata s)\<rparr>
                            else s)
                      (sessions w)\<rparr>))"

text \<open>\<^verbatim>\<open>session?.metadata?.lastCommand\<close>.\<close>

definition lastCommand :: "session option \<Rightarrow> jsstring option" where
  "lastCommand s = (case s of None \<Rightarrow> None | Some r \<Rightarrow> map_of (sess_metadata r) (js ''lastCommand''))"

section \<open>The command handler: handleCommand\<close>

definition nl :: "16 word" where
  "nl = 0x0A"

definition ok_result :: "jsstring \<Rightarrow> command_result" where
  "ok_result m = \<lparr>success = True, res_message = m, modified = False\<rparr>"

definition failed_result :: "jsstring \<Rightarrow> command_result" where
  "failed_result m = \<lparr>success = False, res_message = m, modified = False\<rparr>"

definition helpText :: jsstring where
  "helpText = join [nl]
     [js ''Available Commands:'', [],
      js ''Command Management:'',
      js ''  /command-set <name> <path> [text] - Register command'',
      js ''  /load-commands <folder> - Bulk load (recursive)'',
      js ''  /command-invoke <name> [args] - Execute'',
      js ''  /commands - List registered'',
      js ''  Note: Commands use relative paths (e.g., .claude/commands)'', [],
      js ''Codebase:'',
      js ''  /clone <repo-url> - Clone repository'',
      js ''  /repos - List workspace repositories'',
      js ''  /getcwd - Show working directory'',
      js ''  /setcwd <path> - Set directory'',
      js ''  Note: Codebases use full paths (e.g., /workspace/repo-name)'', [],
      js ''Session:'',
      js ''  /status - Show state'',
      js ''  /reset - Clear session'',
      js ''  /help - Show help'']"

definition statusCommand :: "env \<Rightarrow> conversation \<Rightarrow> command_result io" where
  "statusCommand env conversation =
     (let msg0 = js ''Platform: '' @ conv_platform_type conversation @ [nl]
                 @ js ''AI Assistant: '' @ conv_ai_assistant_type conversation
      in io_bind
           (if truthy (conv_codebase_id conversation)
            then io_bind (getCodebase env (or_else (conv_codebase_id conversation) []))
                   (\<lambda>cb. io_return
                      (case cb of
                         None \<Rightarrow> msg0
                       | Some c \<Rightarrow>
                           if cb_name c \<noteq> []
                           then msg0 @ [nl, nl] @ js ''Codebase: '' @ cb_name c
                                @ (if truthy (cb_repository_url c)
                                   then [nl] @ js ''Repository: ''
                                        @ or_else (cb_repository_url c) []
                                   else [])
                           else msg0))
            else io_return
                   (msg0 @ [nl, nl]
                    @ js ''No codebase configured. Use /clone <repo-url> to get started.''))
           (\<lambda>msg1.
              let msg2 = msg1 @ [nl, nl] @ js ''Current Working Directory: ''
                         @ or_else (conv_cwd conversation) (js ''Not set'')
              in io_bind (getActiveSession env (conv_id conversation))
                   (\<lambda>session. io_return
                      (ok_result
                         (case session of
                            None \<Rightarrow> msg2
                          | Some r \<Rightarrow>
                              if sess_id r \<noteq> []
                              then msg2 @ [nl] @ js ''Active Session: '' @ take 8 (sess_id r)
                                   @ js ''...''
                              else msg2)))))"

text \<open>
  Reset session when changing working directory, and when cloning a new repository:
  the active session of the conversation, if there is one, is deactivated.
\<close>

definition resetActiveSession :: "env \<Rightarrow> conversation \<Rightarrow> unit io" where
  "resetActiveSession env conversation =
     io_bind (getActiveSession env (conv_id conversation))
       (\<lambda>session. case session of
                     None \<Rightarrow> io_return ()
                   | Some r \<Rightarrow> deactivateSession env (sess_id r))"

definition setcwdCommand :: "env \<Rightarrow> conversation \<Rightarrow> jsstring list \<Rightarrow> command_result io" where
  "setcwdCommand env conversation as =
     (if as = [] then io_return (failed_result (js ''Usage: /setcwd <path>''))
      else
        let newCwd = join (js '' '') as
        in io_bind (findCodebaseByPath env newCwd)
             (\<lambda>existingCodebase.
         io_bind (case existingCodebase of
                    Some cb \<Rightarrow>
                      updateConversation env (conv_id conversation) (Some newCwd) (Some (cb_id cb))
                  | None \<Rightarrow> updateConversation env (conv_id conversation) (Some newCwd) None)
             (\<lambda>_.
         io_bind (io_catch
                    (execAsync env (js ''git config --global --add safe.directory '' @ newCwd))
                    (\<lambda>_. io_return ()))
             (\<lambda>_.
         io_bind (resetActiveSession env conversation)
             (\<lambda>_.
         io_return
           \<lparr>success = True,
            res_message =
              js ''Working directory set to: '' @ newCwd @ [nl, nl]
              @ js ''Session reset - starting fresh on next message.''
              @ (case existingCodebase of
                   Some cb \<Rightarrow> [nl, nl] @ js ''Codebase linked: '' @ cb_name cb
                 | None \<Rightarrow> []),
            modified = True\<rparr>)))))"

text \<open>The repository URL that \<^verbatim>\<open>/clone\<close> works with, and the name it derives.\<close>

definition cloneUrl :: "jsstring \<Rightarrow> jsstring" where
  "cloneUrl arg =
     (let u1 = (if startsWith arg (js ''<'') \<and> endsWith arg (js ''>'') then slice_1_m1 arg else arg)
      in if \<not> str_includes u1 (js ''://'') \<and> \<not> str_includes u1 (js ''github.com'')
            \<and> str_includes u1 (js ''/'')
         then js ''https://github.com/'' @ u1 @ js ''.git''
         else u1)"

definition cloneRepoName :: "jsstring \<Rightarrow> jsstring" where
  "cloneRepoName repoUrl =
     (let n = replace_first (js ''.git'') [] (last (split_str (js ''/'') repoUrl))
      in if n = [] then js ''unknown'' else n)"

definition cloneShell :: "env \<Rightarrow> jsstring \<Rightarrow> jsstring \<Rightarrow> jsstring" where
  "cloneShell env repoUrl targetPath =
     (let quoted = (\<lambda>u. js ''git clone '' @ [dquote] @ u @ [dquote] @ js '' '' @ [dquote]
                          @ targetPath @ [dquote])
      in if truthy (ghToken env) \<and> str_includes repoUrl (js ''github.com'')
         then quoted
                (if startsWith repoUrl (js ''https://github.com'')
                 then replace_first (js ''https://github.com'')
                        (js ''https://'' @ or_else (ghToken env) [] @ js ''@github.com'') repoUrl
                 else if startsWith repoUrl (js ''http://github.com'')
                 then replace_first (js ''http://github.com'')
                        (js ''https://'' @ or_else (ghToken env) [] @ js ''@github.com'') repoUrl
                 else repoUrl)
         else quoted repoUrl)"

definition detectAssistant :: "env \<Rightarrow> jsstring \<Rightarrow> jsstring io" where
  "detectAssistant env targetPath =
     io_bind (succeeds env (Access (pathJoin env targetPath (js ''.codex''))))
       (\<lambda>codex. if codex then io_return (js ''codex'')
                 else io_bind (succeeds env (Access (pathJoin env targetPath (js ''.claude''))))
                        (\<lambda>_. io_return (js ''claude'')))"

definition detectCommandFolder :: "env \<Rightarrow> jsstring \<Rightarrow> jsstring option io" where
  "detectCommandFolder env targetPath =
     io_bind (succeeds env (Access (pathJoin env targetPath (js ''.claude/commands''))))
       (\<lambda>a. if a then io_return (Some (js ''.claude/commands''))
             else io_bind (succeeds env (Access (pathJoin env targetPath (js ''.agents/commands''))))
                    (\<lambda>b. io_return (if b then Some (js ''.agents/commands'') else None)))"

definition cloneCommand :: "env \<Rightarrow> conversation \<Rightarrow> jsstring list \<Rightarrow> command_result io" where
  "cloneCommand env conversation as =
     (if as = [] \<or> hd as = []
      then io_return (failed_result (js ''Usage: /clone <repo-url> or /clone <owner/repo>''))
      else
        let repoUrl = cloneUrl (hd as);
            repoName = cloneRepoName repoUrl;
            targetPath = js ''/workspace/'' @ repoName
        in io_catch
             (io_bind (execAsync env (cloneShell env repoUrl targetPath))
                (\<lambda>_.
              io_bind (execAsync env (js ''git config --global --add safe.directory '' @ targetPath))
                (\<lambda>_.
              io_bind (detectAssistant env targetPath)
                (\<lambda>suggestedAssistant.
              io_bind (createCodebase env repoName (Some repoUrl) targetPath (Some suggestedAssistant))
                (\<lambda>codebase.
              io_bind (updateConversation env (conv_id conversation) (Some targetPath)
                         (Some (cb_id codebase)))
                (\<lambda>_.
              io_bind (resetActiveSession env conversation)
                (\<lambda>_.
              io_bind (detectCommandFolder env targetPath)
                (\<lambda>commandFolder.
              io_return
                \<lparr>success = True,
                 res_message =
                   js ''Repository cloned successfully!'' @ [nl, nl]
                   @ js ''Codebase: '' @ repoName @ [nl] @ js ''Path: '' @ targetPath @ [nl, nl]
                   @ js ''Session reset - starting fresh on next message.'' @ [nl, nl]
                   @ js ''You can now start asking questions about the code.''
                   @ (case commandFolder of
                        None \<Rightarrow> []
                      | Some folder \<Rightarrow>
                          [nl, nl, 0xF8FF, 0xFC, 0xEC, 0xC5] @ js '' Found: '' @ folder
                          @ js ''/'' @ [nl] @ js ''Use /load-commands '' @ folder
                          @ js '' to register commands.''),
                 modified = True\<rparr>))))))))
             (\<lambda>err. io_return
                       (failed_result (js ''Failed to clone repository: '' @ exn_message err))))"

definition commandSetCommand :: "env \<Rightarrow> conversation \<Rightarrow> jsstring list \<Rightarrow> command_result io" where
  "commandSetCommand env conversation as =
     (if length as < 2
      then io_return (failed_result (js ''Usage: /command-set <name> <path> [text]''))
      else if \<not> truthy (conv_codebase_id conversation)
      then io_return (failed_result (js ''No codebase configured. Use /clone first.''))
      else
        let commandName = as ! 0;
            commandPath = as ! 1;
            commandText = join (js '' '') (drop 2 as);
            fullPath = pathJoin env (or_else (conv_cwd conversation) (js ''/workspace'')) commandPath
        in io_catch
             (io_bind (if commandText \<noteq> [] then writeFile env fullPath commandText
                       else io_bind (readFile env fullPath) (\<lambda>_. io_return ()))
                (\<lambda>_.
              io_bind (registerCommand env (or_else (conv_codebase_id conversation) []) commandName
                         \<lparr>cmd_path = commandPath,
                          cmd_description = js ''Custom: '' @ commandName\<rparr>)
                (\<lambda>_.
              io_return
                (ok_result
                   (js ''Command '' @ [squote] @ commandName @ [squote] @ js '' registered!''
                    @ [nl] @ js ''Path: '' @ commandPath)))))
             (\<lambda>err. io_return (failed_result (js ''Failed: '' @ exn_message err))))"

text \<open>
  \<^verbatim>\<open>findMarkdownFilesRecursive(rootPath)\<close> only reads the file system: what it finds,
  as pairs of command name and relative path, is the environment's, and so is whether
  reading the directories throws.
\<close>

definition findMarkdownFilesRecursive :: "env \<Rightarrow> jsstring \<Rightarrow> (jsstring \<times> jsstring) list io" where
  "findMarkdownFilesRecursive env rootPath =
     call env (Readdir rootPath) (io_return (markdownFiles env rootPath))"

definition loadCommandsCommand :: "env \<Rightarrow> conversation \<Rightarrow> jsstring list \<Rightarrow> command_result io" where
  "loadCommandsCommand env conversation as =
     (if as = [] then io_return (failed_result (js ''Usage: /load-commands <folder>''))
      else if \<not> truthy (conv_codebase_id conversation)
      then io_return (failed_result (js ''No codebase configured.''))
      else
        let folderPath = join (js '' '') as;
            fullPath = pathJoin env (or_else (conv_cwd conversation) (js ''/workspace'')) folderPath;
            codebaseId = or_else (conv_codebase_id conversation) []
        in io_catch
             (io_bind (findMarkdownFilesRecursive env fullPath)
                (\<lambda>found.
                   if found = []
                   then io_return
                          (failed_result
                             (js ''No .md files found in '' @ folderPath
                              @ js '' (searched recursively)''))
                   else
                     io_bind (getCodebaseCommands env codebaseId)
                       (\<lambda>cmds.
                     io_bind (updateCodebaseCommands env codebaseId
                                (fold (\<lambda>(commandName, relativePath).
                                         assignProperty commandName
                                           \<lparr>cmd_path = pathJoin env folderPath relativePath,
                                            cmd_description = js ''From '' @ folderPath\<rparr>)
                                      found cmds))
                       (\<lambda>_.
                     io_return
                       (ok_result
                          (js ''Loaded '' @ nat_to_str (length found)
                           @ js '' commands recursively: ''
                           @ join (js '', '') (map fst found)))))))
             (\<lambda>err. io_return (failed_result (js ''Failed: '' @ exn_message err))))"

definition commandsCommand :: "env \<Rightarrow> conversation \<Rightarrow> command_result io" where
  "commandsCommand env conversation =
     (if \<not> truthy (conv_codebase_id conversation)
      then io_return (failed_result (js ''No codebase configured.''))
      else
        io_bind (getCodebase env (or_else (conv_codebase_id conversation) []))
          (\<lambda>codebase.
             let cmds = (case codebase of None \<Rightarrow> [] | Some c \<Rightarrow> cb_commands c)
             in if cmds = []
                then io_return
                       (ok_result
                          (js ''No commands registered.'' @ [nl, nl]
                           @ js ''Use /command-set or /load-commands.''))
                else io_return
                       (ok_result
                          (js ''Registered Commands:'' @ [nl, nl]
                           @ concat (map (\<lambda>(name, def). name @ js '' - '' @ cmd_path def @ [nl])
                                       (objectEntries cmds))))))"

definition reposCommand :: "env \<Rightarrow> conversation \<Rightarrow> command_result io" where
  "reposCommand env conversation =
     io_catch
       (io_bind (call env (Readdir (js ''/workspace''))
                   (io_return (directories env (js ''/workspace''))))
          (\<lambda>folders.
             if folders = [] then io_return (ok_result (js ''No repositories found in /workspace''))
             else
               let currentCwd = or_else (conv_cwd conversation) []
               in io_return
                    (ok_result
                       (js ''Workspace Repositories:'' @ [nl, nl]
                        @ concat
                            (map (\<lambda>folder.
                                    let folderPath = pathJoin env (js ''/workspace'') folder
                                    in folderPath
                                       @ (if startsWith currentCwd folderPath
                                          then js '' [active]'' else [])
                                       @ [nl])
                                 folders)))))
       (\<lambda>err. io_return
                 (failed_result (js ''Failed to list repositories: '' @ exn_message err)))"

definition resetCommand :: "env \<Rightarrow> conversation \<Rightarrow> command_result io" where
  "resetCommand env conversation =
     io_bind (getActiveSession env (conv_id conversation))
       (\<lambda>session.
          case session of
            Some r \<Rightarrow>
              io_bind (deactivateSession env (sess_id r))
                (\<lambda>_. io_return
                        (ok_result
                           (js ''Session cleared. Starting fresh on next message.'' @ [nl, nl]
                            @ js ''Codebase configuration preserved.'')))
          | None \<Rightarrow> io_return (ok_result (js ''No active session to reset.'')))"

definition unknownCommand :: "jsstring \<Rightarrow> command_result" where
  "unknownCommand cmd =
     failed_result
       (js ''Unknown command: /'' @ cmd @ [nl, nl] @ js ''Type /help to see available commands.'')"

definition handleCommand :: "env \<Rightarrow> conversation \<Rightarrow> jsstring \<Rightarrow> command_result io" where
  "handleCommand env conversation message =
     (let cmd = command (parseCommand message); as = args (parseCommand message)
      in if cmd = js ''help'' then io_return (ok_result helpText)
         else if cmd = js ''status'' then statusCommand env conversation
         else if cmd = js ''getcwd''
         then io_return
                (ok_result
                   (js ''Current working directory: ''
                    @ or_else (conv_cwd conversation) (js ''Not set'')))
         else if cmd = js ''setcwd'' then setcwdCommand env conversation as
         else if cmd = js ''clone'' then cloneCommand env conversation as
         else if cmd = js ''command-set'' then commandSetCommand env conversation as
         else if cmd = js ''load-commands'' then loadCommandsCommand env conversation as
         else if cmd = js ''commands'' then commandsCommand env conversation
         else if cmd = js ''repos'' then reposCommand env conversation
         else if cmd = js ''reset'' then resetCommand env conversation
         else io_return (unknownCommand cmd))"

section \<open>The orchestrator\<close>

text \<open>Known commands that can be used without the \<^verbatim>\<open>/\<close> prefix.\<close>

definition KNOWN_COMMANDS :: "jsstring list" where
  "KNOWN_COMMANDS =
     [js ''clone'', js ''help'', js ''status'', js ''reset'', js ''getcwd'', js ''setcwd'',
      js ''commands'', js ''command-set'', js ''command-invoke'', js ''load-commands'',
      js ''codebase-switch'', js ''repos'']"

definition normalizeCommand :: "jsstring \<Rightarrow> jsstring" where
  "normalizeCommand message =
     (let trimmed = trim message;
          firstWord = (case split_ws trimmed of [] \<Rightarrow> None | x # _ \<Rightarrow> Some (toLowerCase x))
      in if truthy firstWord \<and> or_else firstWord [] \<in> set KNOWN_COMMANDS
            \<and> \<not> startsWith trimmed (js ''/'')
         then js ''/'' @ trimmed
         else message)"

text \<open>
  \<^verbatim>\<open>codebase.commands[commandName]\<close> reads a property of a plain object: the
  command of that name, or what every object inherits under that name, or nothing.
\<close>

datatype 'a property = Own 'a | Inherited | Absent

definition objectPrototypeKeys :: "jsstring list" where
  "objectPrototypeKeys =
     [js ''constructor'', js ''__defineGetter__'', js ''__defineSetter__'',
      js ''hasOwnProperty'', js ''__lookupGetter__'', js ''__lookupSetter__'',
      js ''isPrototypeOf'', js ''propertyIsEnumerable'', js ''toString'', js ''valueOf'',
      js ''__proto__'', js ''toLocaleString'']"

definition commandsLookup :: "commands \<Rightarrow> jsstring \<Rightarrow> command_def property" where
  "commandsLookup cmds name =
     (case map_of cmds name of
        Some d \<Rightarrow> Own d
      | None \<Rightarrow> if name \<in> set objectPrototypeKeys then Inherited else Absent)"

definition usageNotice :: jsstring where
  "usageNotice = js ''Usage: /command-invoke <name> [args...]''"

definition noCodebaseNotice :: jsstring where
  "noCodebaseNotice = js ''No codebase configured. Use /clone first.''"

definition errorNotice :: jsstring where
  "errorNotice =
     [0x26A0, 0xFE0F] @ js '' An error occurred. Try /reset to start a fresh session.''"

text \<open>
  A step of handleMessage that ends the handling early sends its text and returns
  nothing to go on with.
\<close>

definition reply_and_return :: "env \<Rightarrow> jsstring \<Rightarrow> jsstring \<Rightarrow> 'a option io" where
  "reply_and_return env conversationId msg =
     io_bind (sendMessage env conversationId msg) (\<lambda>_. io_return None)"

text \<open>
  Parse \<^verbatim>\<open>/command-invoke\<close> (lines 81 to 136): the prompt to send and the name of
  the command, unless the handling ends here. An inherited property has no
  \<^verbatim>\<open>path\<close>, and \<^verbatim>\<open>join\<close> throws on it.
\<close>

definition invokePrompt ::
  "env \<Rightarrow> jsstring \<Rightarrow> conversation \<Rightarrow> jsstring \<Rightarrow> jsstring option
     \<Rightarrow> (jsstring \<times> jsstring option) option io" where
  "invokePrompt env conversationId conversation message issueContext =
     (let parsedArgs = args (parseCommand message)
      in if length parsedArgs < 1 then reply_and_return env conversationId usageNotice
         else
           let commandName = hd parsedArgs; as = drop 1 parsedArgs
           in if \<not> truthy (conv_codebase_id conversation)
              then reply_and_return env conversationId noCodebaseNotice
              else
                io_bind (getCodebase env (or_else (conv_codebase_id conversation) []))
                  (\<lambda>codebase.
                     case codebase of
                       None \<Rightarrow> reply_and_return env conversationId (js ''Codebase not found.'')
                     | Some cb \<Rightarrow>
                         (case commandsLookup (cb_commands cb) commandName of
                            Absent \<Rightarrow>
                              reply_and_return env conversationId
                                (js ''Command '' @ [squote] @ commandName @ [squote]
                                 @ js '' not found. Use /commands to see available.'')
                          | Inherited \<Rightarrow>
                              io_throw (Error (js ''The path argument must be of type string''))
                          | Own commandDef \<Rightarrow>
                              let cwd = or_else (conv_cwd conversation) (cb_default_cwd cb);
                                  commandFilePath = pathJoin env cwd (cmd_path commandDef)
                              in io_catch
                                   (io_bind (readFile env commandFilePath)
                                      (\<lambda>commandText.
                                    io_bind (substituteVariables_io env commandText as)
                                      (\<lambda>prompt.
                                    io_return
                                      (Some (if truthy issueContext
                                             then prompt @ [nl, nl] @ js ''---'' @ [nl, nl]
                                                  @ or_else issueContext []
                                             else prompt,
                                             Some commandName)))))
                                   (\<lambda>err. reply_and_return env conversationId
                                             (js ''Failed to read command file: ''
                                              @ exn_message err)))))"

text \<open>Lines 77 to 143: a command invocation, or a regular message, which requires a codebase.\<close>

definition resolvePrompt ::
  "env \<Rightarrow> jsstring \<Rightarrow> conversation \<Rightarrow> jsstring \<Rightarrow> jsstring option
     \<Rightarrow> (jsstring \<times> jsstring option) option io" where
  "resolvePrompt env conversationId conversation message issueContext =
     (if startsWith message (js ''/command-invoke'')
      then invokePrompt env conversationId conversation message issueContext
      else if \<not> truthy (conv_codebase_id conversation)
      then reply_and_return env conversationId noCodebaseNotice
      else io_return (Some (message, None)))"

definition newSession :: "env \<Rightarrow> conversation \<Rightarrow> session io" where
  "newSession env conversation =
     createSession env (conv_id conversation) (conv_codebase_id conversation)
       (conv_ai_assistant_type conversation)"

text \<open>
  Get or create the session (lines 151 to 181), handling the transition from plan to
  execute: the session to use and the working directory.
\<close>

definition needsNewSession :: "jsstring option \<Rightarrow> session option \<Rightarrow> bool" where
  "needsNewSession commandName session \<longleftrightarrow>
     commandName = Some (js ''execute'') \<and> lastCommand session = Some (js ''plan-feature'')"

definition resolveSession ::
  "env \<Rightarrow> conversation \<Rightarrow> jsstring option \<Rightarrow> (session \<times> jsstring) io" where
  "resolveSession env conversation commandName =
     io_bind (getActiveSession env (conv_id conversation))
       (\<lambda>session.
     io_bind (getCodebase env (or_else (conv_codebase_id conversation) []))
       (\<lambda>codebase.
          let cwd = or_else (conv_cwd conversation)
                      (or_else (case codebase of None \<Rightarrow> None | Some cb \<Rightarrow> Some (cb_default_cwd cb))
                         (js ''/workspace''))
          in if needsNewSession commandName session
             then io_bind (case session of
                             Some r \<Rightarrow> deactivateSession env (sess_id r)
                           | None \<Rightarrow> io_return ())
                    (\<lambda>_. io_bind (newSession env conversation) (\<lambda>r. io_return (r, cwd)))
             else (case session of
                     None \<Rightarrow> io_bind (newSession env conversation) (\<lambda>r. io_return (r, cwd))
                   | Some r \<Rightarrow> io_return (r, cwd))))"

text \<open>\<^verbatim>\<open>for await (const msg of stream) body(msg)\<close> over the chunks of a stream.\<close>

fun forAwait :: "(message_chunk \<Rightarrow> unit io) \<Rightarrow> message_chunk list \<Rightarrow> unit io" where
  "forAwait body [] = io_return ()"
| "forAwait body (msg # msgs) = io_bind (body msg) (\<lambda>_. forAwait body msgs)"

definition streamEnd :: "exn option \<Rightarrow> unit io" where
  "streamEnd err = (case err of None \<Rightarrow> io_return () | Some e \<Rightarrow> io_throw e)"

text \<open>Stream mode (lines 187 to 204): send each chunk immediately.\<close>

definition streamChunk :: "env \<Rightarrow> jsstring \<Rightarrow> session \<Rightarrow> message_chunk \<Rightarrow> unit io" where
  "streamChunk env conversationId session msg =
     (if chunk_type msg = Assistant \<and> truthy (content msg)
      then sendMessage env conversationId (or_else (content msg) [])
      else if chunk_type msg = Tool \<and> truthy (toolName msg)
      then io_bind (formatToolCall_io env (or_else (toolName msg) []) (toolInput msg))
             (\<lambda>toolMessage. sendMessage env conversationId toolMessage)
      else if chunk_type msg = Result \<and> truthy (sessionId msg)
      then updateSession env (sess_id session) (or_else (sessionId msg) [])
      else io_return ())"

definition streamMode ::
  "env \<Rightarrow> jsstring \<Rightarrow> jsstring \<Rightarrow> session \<Rightarrow> jsstring \<Rightarrow> jsstring \<Rightarrow> unit io" where
  "streamMode env conversationId aiClient session promptToSend cwd =
     io_bind (openQuery env aiClient promptToSend cwd (or_undefined (assistant_session_id session)))
       (\<lambda>(chunks, err).
          io_bind (forAwait (streamChunk env conversationId session) chunks)
            (\<lambda>_. streamEnd err))"

text \<open>
  Batch mode (lines 205 to 264): accumulate the assistant messages, send only the final
  clean summary.
\<close>

definition batchChunk ::
  "env \<Rightarrow> session \<Rightarrow> message_chunk \<Rightarrow> jsstring list \<Rightarrow> jsstring list io" where
  "batchChunk env session msg assistantMessages =
     (if chunk_type msg = Assistant \<and> truthy (content msg)
      then io_return (assistantMessages @ [or_else (content msg) []])
      else if chunk_type msg = Tool \<and> truthy (toolName msg)
      then io_bind (formatToolCall_io env (or_else (toolName msg) []) (toolInput msg))
             (\<lambda>_. io_return assistantMessages)
      else if chunk_type msg = Result \<and> truthy (sessionId msg)
      then io_bind (updateSession env (sess_id session) (or_else (sessionId msg) []))
             (\<lambda>_. io_return assistantMessages)
      else io_return assistantMessages)"

fun batchLoop ::
  "env \<Rightarrow> session \<Rightarrow> message_chunk list \<Rightarrow> jsstring list \<Rightarrow> jsstring list io" where
  "batchLoop env session [] assistantMessages = io_return assistantMessages"
| "batchLoop env session (msg # msgs) assistantMessages =
     io_bind (batchChunk env session msg assistantMessages) (batchLoop env session msgs)"

text \<open>
  The tool indicators of \<^verbatim>\<open>toolIndicatorRegex\<close>, as UTF-16: U+1F527, U+1F4AD,
  U+1F4DD, U+270F U+FE0F, U+1F5D1 U+FE0F, U+1F4C2, U+1F50D.
\<close>

definition toolIndicators :: "jsstring list" where
  "toolIndicators =
     [[0xD83D, 0xDD27], [0xD83D, 0xDCAD], [0xD83D, 0xDCDD], [0x270F, 0xFE0F],
      [0xD83D, 0xDDD1, 0xFE0F], [0xD83D, 0xDCC2], [0xD83D, 0xDD0D]]"

definition isToolSection :: "jsstring \<Rightarrow> bool" where
  "isToolSection sec \<longleftrightarrow> list_ex (startsWith (trim sec)) toolIndicators"

definition cleanSections :: "jsstring \<Rightarrow> jsstring list" where
  "cleanSections lastMessage =
     filter (\<lambda>sec. \<not> isToolSection sec) (split_str [nl, nl] lastMessage)"

definition finalMessage :: "jsstring list \<Rightarrow> jsstring" where
  "finalMessage assistantMessages =
     (if assistantMessages \<noteq> []
      then let lastMessage = last assistantMessages;
               summary = trim (join [nl, nl] (cleanSections lastMessage))
           in if summary = [] then lastMessage else summary
      else [])"

definition batchMode ::
  "env \<Rightarrow> jsstring \<Rightarrow> jsstring \<Rightarrow> session \<Rightarrow> jsstring \<Rightarrow> jsstring \<Rightarrow> unit io" where
  "batchMode env conversationId aiClient session promptToSend cwd =
     io_bind (openQuery env aiClient promptToSend cwd (or_undefined (assistant_session_id session)))
       (\<lambda>(chunks, err).
          io_bind (batchLoop env session chunks [])
            (\<lambda>assistantMessages.
          io_bind (streamEnd err)
            (\<lambda>_.
             if finalMessage assistantMessages \<noteq> []
             then sendMessage env conversationId (finalMessage assistantMessages)
             else io_return ())))"

text \<open>
  Lines 145 to 271: the AI conversation for a prompt. The last command is tracked in
  the metadata of the session.
\<close>

definition aiConversation ::
  "env \<Rightarrow> jsstring \<Rightarrow> conversation \<Rightarrow> jsstring \<Rightarrow> jsstring option \<Rightarrow> unit io" where
  "aiConversation env conversationId conversation promptToSend commandName =
     io_bind (getAssistantClient env (conv_ai_assistant_type conversation))
       (\<lambda>aiClient.
     io_bind (resolveSession env conversation commandName)
       (\<lambda>(session, cwd).
     io_bind (if getStreamingMode env = js ''stream''
              then streamMode env conversationId aiClient session promptToSend cwd
              else batchMode env conversationId aiClient session promptToSend cwd)
       (\<lambda>_.
          if truthy commandName
          then updateSessionMetadata env (sess_id session) (js ''lastCommand'')
                 (or_else commandName [])
          else io_return ())))"

text \<open>The body of the \<^verbatim>\<open>try\<close> block of handleMessage.\<close>

definition handleMessageBody ::
  "env \<Rightarrow> jsstring \<Rightarrow> jsstring \<Rightarrow> jsstring option \<Rightarrow> unit io" where
  "handleMessageBody env conversationId message0 issueContext =
     (let message = normalizeCommand message0
      in io_bind (getOrCreateConversation env (getPlatformType env) conversationId)
           (\<lambda>conversation.
              if startsWith message (js ''/'') \<and> \<not> startsWith message (js ''/command-invoke'')
              then io_bind (handleCommand env conversation message)
                     (\<lambda>result.
                   io_bind (sendMessage env conversationId (res_message result))
                     (\<lambda>_.
                        if modified result
                        then io_bind (getOrCreateConversation env (getPlatformType env)
                                        conversationId)
                               (\<lambda>_. io_return ())
                        else io_return ()))
              else io_bind (resolvePrompt env conversationId conversation message issueContext)
                     (\<lambda>r. case r of
                             None \<Rightarrow> io_return ()
                           | Some (promptToSend, commandName) \<Rightarrow>
                               aiConversation env conversationId conversation promptToSend
                                 commandName)))"

definition handleMessage ::
  "env \<Rightarrow> jsstring \<Rightarrow> jsstring \<Rightarrow> jsstring option \<Rightarrow> unit io" where
  "handleMessage env conversationId message issueContext =
     io_catch (handleMessageBody env conversationId message issueContext)
       (\<lambda>error. sendMessage env conversationId errorNotice)"

section \<open>Reasoning about effects\<close>

text \<open>An environment in which no call to a collaborator throws.\<close>

definition fault_free :: "env \<Rightarrow> bool" where
  "fault_free env \<longleftrightarrow> (\<forall>ef w. fault env ef w = None)"

text \<open>
  A relation between the world before and the world after that holds across every
  computation made of steps it holds across: it is reflexive and transitive, and it
  ignores the clock.
\<close>

definition stable :: "(world \<Rightarrow> world \<Rightarrow> bool) \<Rightarrow> bool" where
  "stable R \<longleftrightarrow>
     (\<forall>w. R w w) \<and> (\<forall>a b c. R a b \<longrightarrow> R b c \<longrightarrow> R a c) \<and> (\<forall>w. R w (tick w))"

definition io_rel :: "(world \<Rightarrow> world \<Rightarrow> bool) \<Rightarrow> 'a io \<Rightarrow> bool" where
  "io_rel R m \<longleftrightarrow> (\<forall>w. R w (snd (m w)))"

text \<open>Nothing is sent, no session changes, no query is made.\<close>

definition quiet :: "world \<Rightarrow> world \<Rightarrow> bool" where
  "quiet w w' \<longleftrightarrow> sessions w' = sessions w \<and> queries w' = queries w \<and> sent w' = sent w"

definition same_sessions_queries :: "world \<Rightarrow> world \<Rightarrow> bool" where
  "same_sessions_queries w w' \<longleftrightarrow> sessions w' = sessions w \<and> queries w' = queries w"

text \<open>The sessions of a set of ids are deactivated; nothing else about sessions changes.\<close>

definition deactivate_in :: "jsstring set \<Rightarrow> session list \<Rightarrow> session list" where
  "deactivate_in D ss = map (\<lambda>s. if sess_id s \<in> D then s\<lparr>active := False\<rparr> else s) ss"

definition only_deactivates :: "world \<Rightarrow> world \<Rightarrow> bool" where
  "only_deactivates w w' \<longleftrightarrow>
     queries w' = queries w \<and> (\<exists>D. sessions w' = deactivate_in D (sessions w))"

definition command_effect :: "world \<Rightarrow> world \<Rightarrow> bool" where
  "command_effect w w' \<longleftrightarrow> sent w' = sent w \<and> only_deactivates w w'"

section \<open>An example environment and example worlds\<close>

definition text_chunk :: "jsstring \<Rightarrow> message_chunk" where
  "text_chunk t = \<lparr>chunk_type = Assistant, content = Some t, toolName = None, toolInput = [],
                   sessionId = None\<rparr>"

definition tool_chunk :: "jsstring \<Rightarrow> message_chunk" where
  "tool_chunk n = \<lparr>chunk_type = Tool, content = None, toolName = Some n, toolInput = [],
                   sessionId = None\<rparr>"

definition result_chunk :: "jsstring \<Rightarrow> message_chunk" where
  "result_chunk t = \<lparr>chunk_type = Result, content = None, toolName = None, toolInput = [],
                     sessionId = Some t\<rparr>"

text \<open>
  An environment in which nothing throws: the backend answers every query with the
  given chunks, and every command file holds the same text.
\<close>

definition example_env :: "jsstring \<Rightarrow> message_chunk list \<Rightarrow> env" where
  "example_env mode chunks =
     \<lparr>getPlatformType = js ''test'', getStreamingMode = mode, fault = (\<lambda>_ _. None),
      sendQuery = (\<lambda>_ _ _ _. (chunks, None)),
      formatToolCall = (\<lambda>name _. js ''TOOL '' @ name),
      substituteVariables = (\<lambda>t _. t),
      pathJoin = (\<lambda>a b. a @ js ''/'' @ b),
      fileText = (\<lambda>_. js ''Do it''),
      markdownFiles = (\<lambda>_. []), directories = (\<lambda>_. []), ghToken = None,
      uuid = (\<lambda>w. js ''id'' @ nat_to_str (clock w)), defaultAssistant = js ''claude''\<rparr>"

definition example_conversation :: conversation where
  "example_conversation =
     \<lparr>conv_id = js ''c1'', conv_platform_type = js ''test'',
      conv_platform_conversation_id = js ''chat'', conv_codebase_id = Some (js ''b1''),
      conv_cwd = None, conv_ai_assistant_type = js ''claude''\<rparr>"

definition example_codebase :: codebase where
  "example_codebase =
     \<lparr>cb_id = js ''b1'', cb_name = js ''repo'', cb_repository_url = None,
      cb_default_cwd = js ''/workspace/repo'', cb_ai_assistant_type = js ''claude'',
      cb_commands =
        [(js ''plan-feature'', \<lparr>cmd_path = js ''plan.md'', cmd_description = []\<rparr>),
         (js ''execute'', \<lparr>cmd_path = js ''execute.md'', cmd_description = []\<rparr>)]\<rparr>"

text \<open>The session that a \<^verbatim>\<open>/command-invoke plan-feature\<close> has left behind.\<close>

definition planned_session :: session where
  "planned_session =
     \<lparr>sess_id = js ''s1'', sess_conversation_id = js ''c1'', sess_codebase_id = Some (js ''b1''),
      sess_ai_assistant_type = js ''claude'', assistant_session_id = Some (js ''tok1''),
      sess_metadata = [(js ''lastCommand'', js ''plan-feature'')], active = True\<rparr>"

definition empty_world :: world where
  "empty_world = \<lparr>conversations = [], codebases = [], sessions = [], sent = [], queries = [],
                   clock = 0\<rparr>"

definition linked_world :: world where
  "linked_world = empty_world\<lparr>conversations := [example_conversation],
                                codebases := [example_codebase]\<rparr>"

definition planned_world :: world where
  "planned_world = linked_world\<lparr>sessions := [planned_session]\<rparr>"

text \<open>The conversation that a first message creates: it has no codebase.\<close>

definition new_conversation :: conversation where
  "new_conversation =
     \<lparr>conv_id = js ''id1'', conv_platform_type = js ''test'',
      conv_platform_conversation_id = js ''chat'', conv_codebase_id = None,
      conv_cwd = None, conv_ai_assistant_type = js ''claude''\<rparr>"

text \<open>Example streams.\<close>

definition four_chunks :: "message_chunk list" where
  "four_chunks =
     [text_chunk (js ''a''), tool_chunk (js ''Read''), text_chunk (js ''b''), text_chunk (js ''c'')]"

text \<open>A tool section, a blank line, a summary; and two tool sections.\<close>

definition tool_then_summary :: jsstring where
  "tool_then_summary = [0xD83D, 0xDD27] @ js '' Read file'' @ [nl, nl] @ js ''All done.''"

definition two_tool_sections :: jsstring where
  "two_tool_sections =
     [0xD83D, 0xDD27] @ js '' Read file'' @ [nl, nl] @ [0xD83D, 0xDCDD] @ js '' Write file''"


text \<open>The example environment on a machine without \<^verbatim>\<open>git\<close>: every shell command throws.\<close>

definition no_git_env :: env where
  "no_git_env =
     (example_env (js ''stream'') [])
       \<lparr>fault := (\<lambda>ef w. case ef of Exec _ \<Rightarrow> Some (Error (js ''git: not found'')) | _ \<Rightarrow> None)\<rparr>"


text \<open>
  The codebase of the example with only the planning command registered, and a world
  whose active session has planned.
\<close>

definition plan_only_world :: world where
  "plan_only_world =
     planned_world
       \<lparr>codebases :=
          [example_codebase
             \<lparr>cb_commands :=
                [(js ''plan-feature'', \<lparr>cmd_path = js ''plan.md'', cmd_description = []\<rparr>)]\<rparr>]\<rparr>"

section \<open>What the two delivery policies deliver\<close>

text \<open>What immediate mode forwards for the chunks of a stream, in their order.\<close>

definition immediate_sends :: "env \<Rightarrow> message_chunk list \<Rightarrow> jsstring list" where
  "immediate_sends env chunks =
     concat (map (\<lambda>msg. if chunk_type msg = Assistant \<and> truthy (content msg)
                         then [or_else (content msg) []]
                         else if chunk_type msg = Tool \<and> truthy (toolName msg)
                         then [formatToolCall env (or_else (toolName msg) []) (toolInput msg)]
                         else [])
                 chunks)"

text \<open>The sessions after the tokens of the result chunks have been stored, one by one.\<close>

definition set_token :: "jsstring \<Rightarrow> jsstring \<Rightarrow> session list \<Rightarrow> session list" where
  "set_token sid token ss =
     map (\<lambda>s. if sess_id s = sid then s\<lparr>assistant_session_id := Some token\<rparr> else s) ss"

definition persist_tokens :: "jsstring \<Rightarrow> message_chunk list \<Rightarrow> session list \<Rightarrow> session list" where
  "persist_tokens sid chunks ss =
     fold (\<lambda>msg. if chunk_type msg = Result \<and> truthy (sessionId msg)
                  then set_token sid (or_else (sessionId msg) []) else id)
          chunks ss"

text \<open>The texts of the assistant chunks that have content, in their order.\<close>

definition assistant_texts :: "message_chunk list \<Rightarrow> jsstring list" where
  "assistant_texts chunks =
     map (\<lambda>msg. or_else (content msg) [])
       (filter (\<lambda>msg. chunk_type msg = Assistant \<and> truthy (content msg)) chunks)"

text \<open>
  The summary of deduplicated-summary mode in the words of the specification: the
  sections between blank lines that do not begin with a tool indicator, rejoined; the
  original text when no section remains.
\<close>

definition spec_summary :: "jsstring \<Rightarrow> jsstring" where
  "spec_summary lastMessage =
     (let kept = filter (\<lambda>sec. \<not> isToolSection sec) (split_str [nl, nl] lastMessage)
      in if kept = [] then lastMessage else join [nl, nl] kept)"

section \<open>The invariant of the sessions\<close>

text \<open>At most one session is active per conversation.\<close>

definition one_active :: "session list \<Rightarrow> bool" where
  "one_active ss \<longleftrightarrow>
     (\<forall>cid. length (filter (\<lambda>s. sess_conversation_id s = cid \<and> active s) ss) \<le> 1)"

text \<open>A computation keeps a property of the world, however it ends.\<close>

definition preserves :: "(world \<Rightarrow> bool) \<Rightarrow> 'a io \<Rightarrow> bool" where
  "preserves I m \<longleftrightarrow> (\<forall>w. I w \<longrightarrow> I (snd (m w)))"

text \<open>Owner and active flag of every session stay as they are.\<close>

definition flags_kept :: "world \<Rightarrow> world \<Rightarrow> bool" where
  "flags_kept w w' \<longleftrightarrow>
     map (\<lambda>s. (sess_conversation_id s, active s)) (sessions w')
       = map (\<lambda>s. (sess_conversation_id s, active s)) (sessions w)"

abbreviation (input) sessions_ok :: "world \<Rightarrow> bool" where
  "sessions_ok w \<equiv> one_active (sessions w)"

section \<open>The admission controller\<close>

text \<open>
  Modelled from the spec: the class \<^verbatim>\<open>ConversationLockManager\<close> of
  \<^verbatim>\<open>./utils/conversation-lock\<close> is not among the sources; \<^verbatim>\<open>index.ts\<close> only
  constructs it and calls \<^verbatim>\<open>acquireLock\<close> and \<^verbatim>\<open>getStats\<close>. The controller keeps a
  mapping from key to a per-key execution chain, and a global counting semaphore of size
  \<^verbatim>\<open>maxConcurrent\<close>. Enqueuing work for a key appends a link to the chain of the key.
  A link whose turn has arrived first acquires a permit, waiting if none is free; it
  executes the work and releases the permit on completion or failure; then the chain
  advances to the next entry, or its map entry is removed if no entry remains.

  A unit of work is named by the number of its submission. The chain of a key lists the
  units submitted under it that have not settled, in arrival order; its head is the
  link whose turn has arrived. The units that hold a permit are the units that execute.
  The histories record the order in which units were submitted, started to execute and
  settled.
\<close>

record lock_manager =
  maxConcurrent :: nat
  chains :: "(jsstring \<times> nat list) list"
  executing :: "(jsstring \<times> nat) list"
  submitted :: "(jsstring \<times> nat) list"
  started :: "(jsstring \<times> nat) list"
  settled :: "(jsstring \<times> nat) list"
  next_unit :: nat

definition new_lock_manager :: "nat \<Rightarrow> lock_manager" where
  "new_lock_manager n =
     \<lparr>maxConcurrent = n, chains = [], executing = [], submitted = [], started = [],
      settled = [], next_unit = 0\<rparr>"

definition chain_of :: "lock_manager \<Rightarrow> jsstring \<Rightarrow> nat list" where
  "chain_of m k = (case map_of (chains m) k of None \<Rightarrow> [] | Some q \<Rightarrow> q)"

datatype lock_error = InvalidKey

text \<open>
  Modelled from the spec: \<^verbatim>\<open>acquireLock(key, work)\<close> with a non-empty key appends
  a link to the chain of the key; an empty key is an invalid argument.
\<close>

definition acquireLock :: "lock_manager \<Rightarrow> jsstring \<Rightarrow> lock_error + lock_manager" where
  "acquireLock m k =
     (if k = [] then Inl InvalidKey
      else Inr (m\<lparr>chains := AList.update k (chain_of m k @ [next_unit m]) (chains m),
                  submitted := submitted m @ [(k, next_unit m)],
                  next_unit := Suc (next_unit m)\<rparr>))"

text \<open>
  Modelled from the spec: the link at the head of the chain of a key acquires a permit
  and starts to execute. It cannot when the chain is empty, when the link executes
  already, or when no permit is free: then it waits.
\<close>

definition start :: "lock_manager \<Rightarrow> jsstring \<Rightarrow> lock_manager option" where
  "start m k =
     (case chain_of m k of
        [] \<Rightarrow> None
      | u # _ \<Rightarrow>
          if (k, u) \<in> set (executing m) then None
          else if length (executing m) < maxConcurrent m
          then Some (m\<lparr>executing := executing m @ [(k, u)],
                       started := started m @ [(k, u)]\<rparr>)
          else None)"

text \<open>
  Modelled from the spec: the executing link of a key completes or fails. Either way its
  permit is released and the chain advances to the next entry, or the map entry of the
  key is removed if no entry remains.
\<close>

definition settle :: "lock_manager \<Rightarrow> jsstring \<Rightarrow> lock_manager option" where
  "settle m k =
     (case chain_of m k of
        [] \<Rightarrow> None
      | u # rest \<Rightarrow>
          if (k, u) \<notin> set (executing m) then None
          else Some (m\<lparr>executing := removeAll (k, u) (executing m),
                       chains := (if rest = [] then AList.delete k (chains m)
                                  else AList.update k rest (chains m)),
                       settled := settled m @ [(k, u)]\<rparr>))"

text \<open>
  What can happen to the controller: a call of \<^verbatim>\<open>acquireLock\<close>, a link starting to
  execute, the executing link of a key completing (\<open>True\<close>) or failing. An interleaving
  is a list of such events; an event that cannot happen in the state it meets makes the
  list no interleaving of the controller. A call with an invalid key is rejected and
  changes nothing.
\<close>

datatype lock_event = Acquire jsstring | Start jsstring | Settle jsstring bool

fun lock_step :: "lock_manager \<Rightarrow> lock_event \<Rightarrow> lock_manager option" where
  "lock_step m (Acquire k) = (case acquireLock m k of Inl _ \<Rightarrow> Some m | Inr m' \<Rightarrow> Some m')"
| "lock_step m (Start k) = start m k"
| "lock_step m (Settle k _) = settle m k"

fun lock_run :: "lock_manager \<Rightarrow> lock_event list \<Rightarrow> lock_manager option" where
  "lock_run m [] = Some m"
| "lock_run m (ev # evs) = (case lock_step m ev of None \<Rightarrow> None | Some m' \<Rightarrow> lock_run m' evs)"

text \<open>The units of a key in a history, in the order of the history.\<close>

definition units_of :: "jsstring \<Rightarrow> (jsstring \<times> nat) list \<Rightarrow> nat list" where
  "units_of k h = map snd (filter (\<lambda>p. fst p = k) h)"

text \<open>
  What holds in every state of the controller: no unit executes twice; a unit that
  executes is at the head of the chain of its key; the settled units of a key followed
  by its chain are the units submitted under it; and the settled units of a key
  followed by its executing units are the units started under it.
\<close>

definition lock_inv :: "lock_manager \<Rightarrow> bool" where
  "lock_inv m \<longleftrightarrow>
     distinct (executing m)
     \<and> (\<forall>k u. (k, u) \<in> set (executing m) \<longrightarrow> (\<exists>rest. chain_of m k = u # rest))
     \<and> (\<forall>k. units_of k (submitted m) = units_of k (settled m) @ chain_of m k)
     \<and> (\<forall>k. units_of k (started m) = units_of k (settled m) @ units_of k (executing m))"

text \<open>An interleaving of calls for two conversations, with two permits.\<close>

definition example_interleaving :: "lock_event list" where
  "example_interleaving =
     [Acquire (js ''a''), Acquire (js ''a''), Acquire (js ''b''), Start (js ''a''),
      Start (js ''b''), Settle (js ''a'') False, Start (js ''a''), Settle (js ''b'') True,
      Settle (js ''a'') True]"

section \<open>Properties of parseCommand\<close>

lemma match_all_Nil: "match_all [] = []"
  by (simp add: match_all.simps)

lemma match_all_Cons:
  "match_all (c # cs) =
     (case match_token (c # cs) of
        None \<Rightarrow> match_all cs
      | Some (tok, rest) \<Rightarrow> tok # match_all rest)"
  by (subst match_all.simps) (simp split: option.split)

text \<open>
  C9. Parsing \<^verbatim>\<open>/command-invoke plan "multi word arg"\<close> gives the command name
  \<^verbatim>\<open>command-invoke\<close> and exactly the two arguments \<^verbatim>\<open>plan\<close> and \<^verbatim>\<open>multi word arg\<close>: the
  quoted argument stays one argument, without its quotes and with its inner spaces.
\<close>

theorem parseCommand_quoted_argument:
  "parseCommand (js ''/command-invoke plan '' @ [dquote] @ js ''multi word arg'' @ [dquote])
     = \<lparr>command = js ''command-invoke'', args = [js ''plan'', js ''multi word arg'']\<rparr>"
  by (simp add: parseCommand_def match_all_Cons match_all_Nil match_token_def
        match_nonspace_def nonSpace_def isWhiteSpace_def strip_quotes_def startsWith_def
        endsWith_def slice_1_m1_def js_def dquote_def squote_def Let_def)

lemma match_token_ws: "isWhiteSpace c \<Longrightarrow> match_token (c # cs) = None"
  by (auto simp: match_token_def match_nonspace_def nonSpace_def isWhiteSpace_def
        dquote_def squote_def)

lemma match_all_dropWhile_ws: "match_all (dropWhile isWhiteSpace s) = match_all s"
  by (induction s) (simp_all add: match_all_Cons match_token_ws)

lemma match_token_plain:
  "nonSpace c \<Longrightarrow> c \<noteq> dquote \<Longrightarrow> c \<noteq> squote \<Longrightarrow>
   match_token (c # cs) = Some (takeWhile nonSpace (c # cs), dropWhile nonSpace (c # cs))"
  by (simp add: match_token_def match_nonspace_def)

lemmas parse_eval =
  parseCommand_def match_all_Cons match_all_Nil match_token_def match_nonspace_def
  nonSpace_def isWhiteSpace_def strip_quotes_def startsWith_def endsWith_def
  slice_1_m1_def js_def dquote_def squote_def slash_def Let_def first_ws_token_def

text \<open>
  C10, as the code has it. parseCommand drops the first code unit of its first match
  whether or not that unit is \<^verbatim>\<open>/\<close>. The first match is the first whitespace-delimited
  token of the input whenever that token does not begin with a quote character, and
  then the command name is that token without its first code unit.
\<close>

theorem parseCommand_drops_first_unit:
  assumes "first_ws_token inp \<noteq> []"
    and "hd (first_ws_token inp) \<noteq> dquote" and "hd (first_ws_token inp) \<noteq> squote"
  shows "command (parseCommand inp) = tl (first_ws_token inp)"
proof -
  obtain c cs where d: "dropWhile isWhiteSpace inp = c # cs"
    using assms(1) by (cases "dropWhile isWhiteSpace inp") (auto simp: first_ws_token_def)
  have ns: "nonSpace c"
    using d hd_dropWhile [of isWhiteSpace inp] by (auto simp: nonSpace_def)
  have f: "first_ws_token inp = c # takeWhile nonSpace cs"
    using d ns by (simp add: first_ws_token_def)
  have "match_all inp = match_all (c # cs)"
    using match_all_dropWhile_ws [of inp] d by simp
  also have "\<dots> = takeWhile nonSpace (c # cs) # match_all (dropWhile nonSpace (c # cs))"
    using assms(2,3) f ns by (simp add: match_all_Cons match_token_plain)
  finally show ?thesis
    using ns f by (simp add: parseCommand_def)
qed

text \<open>
  The example of the claim: \<^verbatim>\<open>parseCommand('clone x')\<close> has the command name
  \<^verbatim>\<open>lone\<close>.
\<close>

theorem parseCommand_drops_first_unit_witness:
  "first_ws_token (js ''clone x'') \<noteq> []
   \<and> hd (first_ws_token (js ''clone x'')) \<noteq> dquote
   \<and> hd (first_ws_token (js ''clone x'')) \<noteq> squote
   \<and> hd (first_ws_token (js ''clone x'')) \<noteq> slash
   \<and> parseCommand (js ''clone x'') = \<lparr>command = js ''lone'', args = [js ''x'']\<rparr>
   \<and> command (parseCommand (js ''clone x'')) = tl (first_ws_token (js ''clone x''))"
  using parseCommand_drops_first_unit [of "js ''clone x''"]
  by (simp add: parse_eval)

text \<open>
  C10, as the claim states it, fails: the first whitespace-delimited token of
  \<^verbatim>\<open>"a b" c\<close> is \<^verbatim>\<open>"a\<close>, which does not start with \<^verbatim>\<open>/\<close>, but the first match is the
  quoted run \<^verbatim>\<open>"a b"\<close> and the command name is \<^verbatim>\<open>a b"\<close>.
\<close>

theorem parseCommand_first_token_counterexample:
  "\<not> (\<forall>inp. first_ws_token inp \<noteq> [] \<and> hd (first_ws_token inp) \<noteq> slash
          \<longrightarrow> command (parseCommand inp) = tl (first_ws_token inp))"
proof
  assume a: "\<forall>inp. first_ws_token inp \<noteq> [] \<and> hd (first_ws_token inp) \<noteq> slash
          \<longrightarrow> command (parseCommand inp) = tl (first_ws_token inp)"
  let ?t = "[dquote] @ js ''a b'' @ [dquote] @ js '' c''"
  have "first_ws_token ?t \<noteq> [] \<and> hd (first_ws_token ?t) \<noteq> slash"
    by (simp add: parse_eval)
  with a have "command (parseCommand ?t) = tl (first_ws_token ?t)"
    by blast
  then show False
    by (simp add: parse_eval)
qed

section \<open>The effects of computations\<close>

lemma tick_simps [simp]:
  "sent (tick w) = sent w" "sessions (tick w) = sessions w" "queries (tick w) = queries w"
  "conversations (tick w) = conversations w" "codebases (tick w) = codebases w"
  by (simp_all add: tick_def)

lemma io_bind_Inr: "m w = (Inr x, w') \<Longrightarrow> io_bind m f w = f x w'"
  by (simp add: io_bind_def)

lemma io_bind_Inl: "m w = (Inl e, w') \<Longrightarrow> io_bind m f w = (Inl e, w')"
  by (simp add: io_bind_def)

lemma io_catch_Inr: "m w = (Inr x, w') \<Longrightarrow> io_catch m h w = (Inr x, w')"
  by (simp add: io_catch_def)

lemma io_catch_Inl: "m w = (Inl e, w') \<Longrightarrow> io_catch m h w = h e w'"
  by (simp add: io_catch_def)

lemma call_fault_free: "fault_free env \<Longrightarrow> call env ef m w = m (tick w)"
  by (simp add: call_def fault_free_def)

lemma io_relD: "io_rel R m \<Longrightarrow> R w (snd (m w))"
  by (simp add: io_rel_def)

lemma io_rel_mono: "io_rel R m \<Longrightarrow> (\<And>w w'. R w w' \<Longrightarrow> R' w w') \<Longrightarrow> io_rel R' m"
  by (simp add: io_rel_def)

lemma io_rel_return: "stable R \<Longrightarrow> io_rel R (io_return x)"
  by (simp add: io_rel_def stable_def io_return_def)

lemma io_rel_throw: "stable R \<Longrightarrow> io_rel R (io_throw e)"
  by (simp add: io_rel_def stable_def io_throw_def)

lemma io_rel_bind:
  assumes "stable R" "io_rel R m" "\<And>x. io_rel R (f x)"
  shows "io_rel R (io_bind m f)"
proof -
  have "R w (snd (io_bind m f w))" for w
  proof (cases "m w")
    case (Pair r w1)
    have 1: "R w w1" using io_relD [OF assms(2), of w] Pair by simp
    show ?thesis
    proof (cases r)
      case (Inl e)
      with Pair 1 show ?thesis by (simp add: io_bind_def)
    next
      case (Inr x)
      have "R w1 (snd (f x w1))" using assms(3) by (simp add: io_rel_def)
      with 1 have "R w (snd (f x w1))" using assms(1) unfolding stable_def by blast
      with Pair Inr show ?thesis by (simp add: io_bind_def)
    qed
  qed
  then show ?thesis by (simp add: io_rel_def)
qed

lemma io_rel_catch:
  assumes "stable R" "io_rel R m" "\<And>e. io_rel R (h e)"
  shows "io_rel R (io_catch m h)"
proof -
  have "R w (snd (io_catch m h w))" for w
  proof (cases "m w")
    case (Pair r w1)
    have 1: "R w w1" using io_relD [OF assms(2), of w] Pair by simp
    show ?thesis
    proof (cases r)
      case (Inr x)
      with Pair 1 show ?thesis by (simp add: io_catch_def)
    next
      case (Inl e)
      have "R w1 (snd (h e w1))" using assms(3) by (simp add: io_rel_def)
      with 1 have "R w (snd (h e w1))" using assms(1) unfolding stable_def by blast
      with Pair Inl show ?thesis by (simp add: io_catch_def)
    qed
  qed
  then show ?thesis by (simp add: io_rel_def)
qed

lemma io_rel_call:
  assumes "stable R" "\<And>w. R w (snd (m w))"
  shows "io_rel R (call env ef m)"
proof -
  have "R w (snd (call env ef m w))" for w
  proof -
    have t: "R w (tick w)" using assms(1) by (simp add: stable_def)
    with assms(2) [of "tick w"] have "R w (snd (m (tick w)))"
      using assms(1) unfolding stable_def by blast
    with t show ?thesis by (simp add: call_def split: option.split)
  qed
  then show ?thesis by (simp add: io_rel_def)
qed

lemma io_rel_succeeds: "stable R \<Longrightarrow> io_rel R (succeeds env ef)"
  by (simp add: io_rel_def stable_def succeeds_def)

lemma stable_quiet: "stable quiet"
  by (simp add: stable_def quiet_def)

lemma stable_same_sessions_queries: "stable same_sessions_queries"
  by (simp add: stable_def same_sessions_queries_def)

lemma deactivate_in_twice:
  "deactivate_in D' (deactivate_in D ss) = deactivate_in (D \<union> D') ss"
  by (induction ss) (auto simp: deactivate_in_def)

lemma deactivate_in_empty: "deactivate_in {} ss = ss"
  by (simp add: deactivate_in_def)

lemma only_deactivates_refl: "sessions w' = sessions w \<Longrightarrow> queries w' = queries w \<Longrightarrow> only_deactivates w w'"
  unfolding only_deactivates_def using deactivate_in_empty [of "sessions w"] by metis

lemma only_deactivates_trans:
  "only_deactivates a b \<Longrightarrow> only_deactivates b c \<Longrightarrow> only_deactivates a c"
  unfolding only_deactivates_def by (metis deactivate_in_twice)

lemma stable_only_deactivates: "stable only_deactivates"
  unfolding stable_def
  using only_deactivates_refl only_deactivates_trans by (metis tick_simps(2,3))

lemma stable_command_effect: "stable command_effect"
  unfolding stable_def command_effect_def
  using only_deactivates_refl only_deactivates_trans by (metis tick_simps(1,2,3))

lemma quiet_imp_same: "quiet w w' \<Longrightarrow> same_sessions_queries w w'"
  by (simp add: quiet_def same_sessions_queries_def)

lemma quiet_imp_command_effect: "quiet w w' \<Longrightarrow> command_effect w w'"
  by (simp add: quiet_def command_effect_def only_deactivates_refl)

lemma same_imp_only_deactivates: "same_sessions_queries w w' \<Longrightarrow> only_deactivates w w'"
  by (simp add: same_sessions_queries_def only_deactivates_refl)

lemma command_effect_imp_only_deactivates: "command_effect w w' \<Longrightarrow> only_deactivates w w'"
  by (simp add: command_effect_def)

subsection \<open>What the collaborators leave alone\<close>

lemmas quiet_call = io_rel_call [OF stable_quiet]

lemma quiet_getOrCreateConversation: "io_rel quiet (getOrCreateConversation env p cid)"
  unfolding getOrCreateConversation_def
  by (rule quiet_call) (simp add: quiet_def Let_def split: option.split)

lemma quiet_updateConversation: "io_rel quiet (updateConversation env cid a b)"
  unfolding updateConversation_def by (rule quiet_call) (simp add: quiet_def)

lemma quiet_createCodebase: "io_rel quiet (createCodebase env n u d a)"
  unfolding createCodebase_def by (rule quiet_call) (simp add: quiet_def Let_def)

lemma quiet_getCodebase: "io_rel quiet (getCodebase env cid)"
  unfolding getCodebase_def by (rule quiet_call) (simp add: quiet_def)

lemma quiet_updateCodebaseCommands: "io_rel quiet (updateCodebaseCommands env cid cmds)"
  unfolding updateCodebaseCommands_def by (rule quiet_call) (simp add: quiet_def)

lemma quiet_getCodebaseCommands: "io_rel quiet (getCodebaseCommands env cid)"
  unfolding getCodebaseCommands_def by (rule quiet_call) (simp add: quiet_def)

lemma quiet_findCodebaseByPath: "io_rel quiet (findCodebaseByPath env p)"
  unfolding findCodebaseByPath_def by (rule quiet_call) (simp add: quiet_def)

lemma quiet_getActiveSession: "io_rel quiet (getActiveSession env cid)"
  unfolding getActiveSession_def by (rule quiet_call) (simp add: quiet_def)

lemma quiet_pure_call: "io_rel quiet (call env ef (io_return x))"
  by (rule quiet_call) (simp add: quiet_def io_return_def)

lemma quiet_registerCommand: "io_rel quiet (registerCommand env cid n c)"
  unfolding registerCommand_def
  by (intro io_rel_bind stable_quiet quiet_getCodebaseCommands quiet_updateCodebaseCommands)

lemmas quiet_collaborators =
  quiet_getOrCreateConversation quiet_updateConversation quiet_createCodebase
  quiet_getCodebase quiet_updateCodebaseCommands quiet_getCodebaseCommands
  quiet_findCodebaseByPath quiet_getActiveSession quiet_pure_call quiet_registerCommand

lemma same_quiet: "io_rel quiet m \<Longrightarrow> io_rel same_sessions_queries m"
  by (erule io_rel_mono) (rule quiet_imp_same)

lemma command_quiet: "io_rel quiet m \<Longrightarrow> io_rel command_effect m"
  by (erule io_rel_mono) (rule quiet_imp_command_effect)

lemma same_sendMessage: "io_rel same_sessions_queries (sendMessage env cid msg)"
  unfolding sendMessage_def
  by (rule io_rel_call [OF stable_same_sessions_queries]) (simp add: same_sessions_queries_def)

named_theorems same_intros

lemmas [same_intros] =
  io_rel_return [OF stable_same_sessions_queries]
  io_rel_throw [OF stable_same_sessions_queries]
  io_rel_bind [OF stable_same_sessions_queries]
  io_rel_catch [OF stable_same_sessions_queries]
  io_rel_succeeds [OF stable_same_sessions_queries]
  same_sendMessage
  quiet_collaborators [THEN same_quiet]

lemma same_reply_and_return:
  "io_rel same_sessions_queries (reply_and_return env cid msg :: 'a option io)"
  unfolding reply_and_return_def by (intro same_intros)

lemma same_invokePrompt:
  "io_rel same_sessions_queries (invokePrompt env cid conversation message ctx)"
  unfolding invokePrompt_def Let_def readFile_def substituteVariables_io_def
  by (auto intro!: same_intros same_reply_and_return split: option.split property.split)

lemma same_resolvePrompt:
  "io_rel same_sessions_queries (resolvePrompt env cid conversation message ctx)"
  unfolding resolvePrompt_def
  by (auto intro!: same_intros same_reply_and_return same_invokePrompt)

subsection \<open>The command handler sends nothing, queries nothing and creates no session\<close>

lemma command_deactivateSession: "io_rel command_effect (deactivateSession env sid)"
  unfolding deactivateSession_def
proof (rule io_rel_call [OF stable_command_effect])
  fix w :: world
  have "map (\<lambda>s. if sess_id s = sid then s\<lparr>active := False\<rparr> else s) (sessions w)
        = deactivate_in {sid} (sessions w)"
    by (simp add: deactivate_in_def)
  then show "command_effect w
     (snd (Inr (), w\<lparr>sessions := map (\<lambda>s. if sess_id s = sid then s\<lparr>active := False\<rparr> else s)
                                     (sessions w)\<rparr>))"
    unfolding command_effect_def only_deactivates_def by auto
qed

named_theorems command_intros

lemmas [command_intros] =
  io_rel_return [OF stable_command_effect]
  io_rel_throw [OF stable_command_effect]
  io_rel_bind [OF stable_command_effect]
  io_rel_catch [OF stable_command_effect]
  io_rel_succeeds [OF stable_command_effect]
  command_deactivateSession
  quiet_collaborators [THEN command_quiet]

lemma command_resetActiveSession: "io_rel command_effect (resetActiveSession env conversation)"
  unfolding resetActiveSession_def by (auto intro!: command_intros split: option.split)

lemma command_statusCommand: "io_rel command_effect (statusCommand env conversation)"
  unfolding statusCommand_def Let_def by (auto intro!: command_intros split: option.split)

lemma command_setcwdCommand: "io_rel command_effect (setcwdCommand env conversation as)"
  unfolding setcwdCommand_def Let_def execAsync_def
  by (auto intro!: command_intros command_resetActiveSession split: option.split)

lemma command_cloneCommand: "io_rel command_effect (cloneCommand env conversation as)"
  unfolding cloneCommand_def Let_def execAsync_def detectAssistant_def detectCommandFolder_def
  by (auto intro!: command_intros command_resetActiveSession split: option.split)

lemma command_commandSetCommand: "io_rel command_effect (commandSetCommand env conversation as)"
  unfolding commandSetCommand_def Let_def writeFile_def readFile_def
  by (auto intro!: command_intros split: option.split)

lemma command_loadCommandsCommand:
  "io_rel command_effect (loadCommandsCommand env conversation as)"
  unfolding loadCommandsCommand_def Let_def findMarkdownFilesRecursive_def
  by (auto intro!: command_intros split: option.split)

lemma command_commandsCommand: "io_rel command_effect (commandsCommand env conversation)"
  unfolding commandsCommand_def Let_def
  by (auto intro!: command_intros split: option.split)

lemma command_reposCommand: "io_rel command_effect (reposCommand env conversation)"
  unfolding reposCommand_def Let_def
  by (auto intro!: command_intros split: option.split)

lemma command_resetCommand: "io_rel command_effect (resetCommand env conversation)"
  unfolding resetCommand_def
  by (auto intro!: command_intros split: option.split)

lemma command_handleCommand: "io_rel command_effect (handleCommand env conversation message)"
  unfolding handleCommand_def Let_def
  by (auto intro!: command_intros command_statusCommand command_setcwdCommand
        command_cloneCommand command_commandSetCommand command_loadCommandsCommand
        command_commandsCommand command_reposCommand command_resetCommand)

lemma fault_free_example_env: "fault_free (example_env mode chunks)"
  by (simp add: fault_free_def example_env_def)

section \<open>Slash commands\<close>

lemma only_same: "io_rel same_sessions_queries m \<Longrightarrow> io_rel only_deactivates m"
  by (erule io_rel_mono) (rule same_imp_only_deactivates)

lemma only_command: "io_rel command_effect m \<Longrightarrow> io_rel only_deactivates m"
  by (erule io_rel_mono) (rule command_effect_imp_only_deactivates)

text \<open>What handleMessage does after the command handler has returned.\<close>

lemma same_after_command:
  "io_rel same_sessions_queries
     (io_catch
        (io_bind (sendMessage env cid txt)
           (\<lambda>_. if b then io_bind (getOrCreateConversation env p cid) (\<lambda>_. io_return ())
                 else io_return ()))
        (\<lambda>error. sendMessage env cid errorNotice))"
  by (auto intro!: same_intros)

lemma handleMessage_slash_unfold:
  assumes "startsWith (normalizeCommand message) (js ''/'')"
    and "\<not> startsWith (normalizeCommand message) (js ''/command-invoke'')"
  shows "handleMessage env cid message ctx =
     io_catch
       (io_bind (getOrCreateConversation env (getPlatformType env) cid)
          (\<lambda>conversation.
             io_bind (handleCommand env conversation (normalizeCommand message))
               (\<lambda>result.
                  io_bind (sendMessage env cid (res_message result))
                    (\<lambda>_. if modified result
                          then io_bind (getOrCreateConversation env (getPlatformType env) cid)
                                 (\<lambda>_. io_return ())
                          else io_return ()))))
       (\<lambda>error. sendMessage env cid errorNotice)"
  using assms by (simp add: handleMessage_def handleMessageBody_def Let_def)

lemma only_handleMessage_slash:
  assumes "startsWith (normalizeCommand message) (js ''/'')"
    and "\<not> startsWith (normalizeCommand message) (js ''/command-invoke'')"
  shows "io_rel only_deactivates (handleMessage env cid message ctx)"
  unfolding handleMessage_slash_unfold [OF assms]
  by (intro io_rel_catch io_rel_bind stable_only_deactivates
        quiet_getOrCreateConversation [THEN same_quiet, THEN only_same]
        command_handleCommand [THEN only_command] same_sendMessage [THEN only_same])
     (auto intro!: io_rel_bind io_rel_return stable_only_deactivates
        quiet_getOrCreateConversation [THEN same_quiet, THEN only_same])

text \<open>
  C8, as the code has it. A message whose normalized text begins with \<^verbatim>\<open>/\<close> and does
  not begin with the text \<^verbatim>\<open>/command-invoke\<close> is handed to the command handler.
  Whatever the environment does, handleMessage issues no query to the AI backend and no
  session is created or resumed: the sessions are the old ones, some of them
  deactivated. When the conversation is found and the handler returns a result, be it a
  success or a failure, the sessions are left as the handler left them; and when the
  send of the result's text does not throw, that text is what is sent to the sender,
  followed by nothing, or by the generic error notice if the reloading of a modified
  conversation throws. When that reloading does not throw either, handleMessage returns
  normally and the text of the result is the one message sent.
\<close>

theorem slash_command_delegated:
  assumes slash: "startsWith (normalizeCommand message) (js ''/'')"
    and notinv: "\<not> startsWith (normalizeCommand message) (js ''/command-invoke'')"
  shows "queries (snd (handleMessage env cid message ctx w)) = queries w
     \<and> (\<exists>D. sessions (snd (handleMessage env cid message ctx w)) = deactivate_in D (sessions w))
     \<and> (\<forall>conversation result w1 w2.
          getOrCreateConversation env (getPlatformType env) cid w = (Inr conversation, w1)
          \<longrightarrow> handleCommand env conversation (normalizeCommand message) w1 = (Inr result, w2)
          \<longrightarrow> sessions (snd (handleMessage env cid message ctx w)) = sessions w2
              \<and> (fault env (SendMessage cid (res_message result)) w2 = None
                   \<longrightarrow> (\<exists>rest. sent (snd (handleMessage env cid message ctx w))
                                  = sent w @ (cid, res_message result) # rest
                               \<and> (rest = []
                                    \<or> rest = [(cid, [0x26A0, 0xFE0F]
                                         @ js '' An error occurred. Try /reset to start a fresh session.'')]))
                       \<and> ((modified result
                             \<longrightarrow> fault env (GetOrCreateConversation (getPlatformType env) cid)
                                   (snd (sendMessage env cid (res_message result) w2)) = None)
                            \<longrightarrow> fst (handleMessage env cid message ctx w) = Inr ()
                                \<and> sent (snd (handleMessage env cid message ctx w))
                                    = sent w @ [(cid, res_message result)])))"
proof (intro conjI allI impI)
  have "only_deactivates w (snd (handleMessage env cid message ctx w))"
    using only_handleMessage_slash [OF assms] by (rule io_relD)
  then show "queries (snd (handleMessage env cid message ctx w)) = queries w"
    and "\<exists>D. sessions (snd (handleMessage env cid message ctx w)) = deactivate_in D (sessions w)"
    by (simp_all add: only_deactivates_def)
next
  fix conversation :: conversation and result :: command_result and w1 w2 :: world
  let ?g = "getOrCreateConversation env (getPlatformType env) cid"
  let ?h = "handleCommand env conversation (normalizeCommand message)"
  let ?rest = "io_bind (sendMessage env cid (res_message result))
                 (\<lambda>_. if modified result then io_bind ?g (\<lambda>_. io_return ()) else io_return ())"
  let ?tail = "io_catch ?rest (\<lambda>error. sendMessage env cid errorNotice)"
  assume g: "?g w = (Inr conversation, w1)" and h: "?h w1 = (Inr result, w2)"
  have hm: "handleMessage env cid message ctx w = ?tail w2"
    unfolding handleMessage_slash_unfold [OF assms]
    using g h by (simp add: io_catch_def io_bind_def)
  have "same_sessions_queries w2 (snd (?tail w2))"
    using same_after_command by (rule io_relD)
  with hm show "sessions (snd (handleMessage env cid message ctx w)) = sessions w2"
    by (simp add: same_sessions_queries_def)
  have s1: "sent w1 = sent w"
    using io_relD [OF quiet_getOrCreateConversation, of w env "getPlatformType env" cid] g
    by (simp add: quiet_def)
  have s2: "sent w2 = sent w1"
    using io_relD [OF command_handleCommand, of w1 env conversation "normalizeCommand message"] h
    by (simp add: command_effect_def)
  {
    assume f: "fault env (SendMessage cid (res_message result)) w2 = None"
    have "\<exists>rest. sent (snd (?tail w2)) = sent w2 @ (cid, res_message result) # rest
                  \<and> (rest = [] \<or> rest = [(cid, errorNotice)])"
      using f
      by (auto simp: io_catch_def io_bind_def sendMessage_def getOrCreateConversation_def
            call_def io_return_def Let_def split: option.split)
    with hm s1 s2
    show "\<exists>rest. sent (snd (handleMessage env cid message ctx w))
                    = sent w @ (cid, res_message result) # rest
                 \<and> (rest = []
                      \<or> rest = [(cid, [0x26A0, 0xFE0F]
                           @ js '' An error occurred. Try /reset to start a fresh session.'')])"
      by (simp add: errorNotice_def)
    assume r: "modified result
               \<longrightarrow> fault env (GetOrCreateConversation (getPlatformType env) cid)
                     (snd (sendMessage env cid (res_message result) w2)) = None"
    have "fst (?tail w2) = Inr () \<and> sent (snd (?tail w2)) = sent w2 @ [(cid, res_message result)]"
      using f r
      by (auto simp: io_catch_def io_bind_def sendMessage_def getOrCreateConversation_def
            call_def io_return_def Let_def split: option.split)
    with hm s1 s2
    show "fst (handleMessage env cid message ctx w) = Inr ()"
      and "sent (snd (handleMessage env cid message ctx w)) = sent w @ [(cid, res_message result)]"
      by simp_all
  }
qed

text \<open>
  Two messages on a conversation with an active session. \<^verbatim>\<open>reset\<close>, a known command
  word without its marker: the handler deactivates the session and its answer is the
  one message sent. \<^verbatim>\<open>/clone owner/repo\<close> on a machine without \<^verbatim>\<open>git\<close>: the
  handler returns a failure, and its text is the one message sent.
\<close>

theorem slash_command_delegated_witness:
  "startsWith (normalizeCommand (js ''reset'')) (js ''/'')
   \<and> \<not> startsWith (normalizeCommand (js ''reset'')) (js ''/command-invoke'')
   \<and> fst (getOrCreateConversation (example_env (js ''stream'') []) (js ''test'') (js ''chat'')
             planned_world) = Inr example_conversation
   \<and> fst (handleCommand (example_env (js ''stream'') []) example_conversation (js ''/reset'')
             (snd (getOrCreateConversation (example_env (js ''stream'') []) (js ''test'')
                     (js ''chat'') planned_world)))
       = Inr (ok_result (js ''Session cleared. Starting fresh on next message.'' @ [nl, nl]
                          @ js ''Codebase configuration preserved.''))
   \<and> fst (handleMessage (example_env (js ''stream'') []) (js ''chat'') (js ''reset'') None
             planned_world) = Inr ()
   \<and> queries (snd (handleMessage (example_env (js ''stream'') []) (js ''chat'') (js ''reset'') None
                      planned_world)) = []
   \<and> sessions (snd (handleMessage (example_env (js ''stream'') []) (js ''chat'') (js ''reset'') None
                       planned_world)) = [planned_session\<lparr>active := False\<rparr>]
   \<and> sent (snd (handleMessage (example_env (js ''stream'') []) (js ''chat'') (js ''reset'') None
                   planned_world))
       = [(js ''chat'', js ''Session cleared. Starting fresh on next message.'' @ [nl, nl]
                         @ js ''Codebase configuration preserved.'')]
   \<and> startsWith (normalizeCommand (js ''/clone owner/repo'')) (js ''/'')
   \<and> \<not> startsWith (normalizeCommand (js ''/clone owner/repo'')) (js ''/command-invoke'')
   \<and> fst (handleCommand no_git_env example_conversation (js ''/clone owner/repo'')
             (snd (getOrCreateConversation no_git_env (js ''test'') (js ''chat'') planned_world)))
       = Inr (failed_result (js ''Failed to clone repository: git: not found''))
   \<and> fst (handleMessage no_git_env (js ''chat'') (js ''/clone owner/repo'') None planned_world)
       = Inr ()
   \<and> queries (snd (handleMessage no_git_env (js ''chat'') (js ''/clone owner/repo'') None
                      planned_world)) = []
   \<and> sessions (snd (handleMessage no_git_env (js ''chat'') (js ''/clone owner/repo'') None
                       planned_world)) = [planned_session]
   \<and> sent (snd (handleMessage no_git_env (js ''chat'') (js ''/clone owner/repo'') None
                   planned_world))
       = [(js ''chat'', js ''Failed to clone repository: git: not found'')]"
proof -
  let ?env = "example_env (js ''stream'') []"
  let ?r = "ok_result (js ''Session cleared. Starting fresh on next message.'' @ [nl, nl]
                          @ js ''Codebase configuration preserved.'')"
  let ?g = "getOrCreateConversation ?env (getPlatformType ?env) (js ''chat'') planned_world"
  let ?h = "handleCommand ?env example_conversation (normalizeCommand (js ''reset'')) (snd ?g)"
  have n: "normalizeCommand (js ''reset'') = js ''/reset''" by code_simp
  have h1: "startsWith (normalizeCommand (js ''reset'')) (js ''/'')" by code_simp
  have h2: "\<not> startsWith (normalizeCommand (js ''reset'')) (js ''/command-invoke'')" by code_simp
  have p: "getPlatformType ?env = js ''test''" by (simp add: example_env_def)
  have g: "fst ?g = Inr example_conversation" by code_simp
  have h: "fst ?h = Inr ?r" by code_simp
  have s: "sessions (snd ?h) = [planned_session\<lparr>active := False\<rparr>]" by code_simp
  have f: "fault ?env (SendMessage (js ''chat'') (res_message ?r)) (snd ?h) = None"
    by (simp add: example_env_def)
  have e: "queries planned_world = []" "sent planned_world = []" "\<not> modified ?r"
    "res_message ?r = js ''Session cleared. Starting fresh on next message.'' @ [nl, nl]
                          @ js ''Codebase configuration preserved.''"
    by (simp_all add: planned_world_def linked_world_def empty_world_def ok_result_def)
  have g': "?g = (Inr example_conversation, snd ?g)"
    using g by (cases ?g) simp
  have h': "handleCommand ?env example_conversation (normalizeCommand (js ''reset'')) (snd ?g)
            = (Inr ?r, snd ?h)"
    using h by (cases ?h) simp
  from slash_command_delegated [OF h1 h2, of ?env "js ''chat''" None planned_world] g' h' s e f
  have first: "fst (handleMessage ?env (js ''chat'') (js ''reset'') None planned_world) = Inr ()
   \<and> queries (snd (handleMessage ?env (js ''chat'') (js ''reset'') None planned_world)) = []
   \<and> sessions (snd (handleMessage ?env (js ''chat'') (js ''reset'') None planned_world))
       = [planned_session\<lparr>active := False\<rparr>]
   \<and> sent (snd (handleMessage ?env (js ''chat'') (js ''reset'') None planned_world))
       = [(js ''chat'', js ''Session cleared. Starting fresh on next message.'' @ [nl, nl]
                         @ js ''Codebase configuration preserved.'')]"
    by (metis append_Nil)
  let ?m = "js ''/clone owner/repo''"
  let ?q = "failed_result (js ''Failed to clone repository: git: not found'')"
  let ?G = "getOrCreateConversation no_git_env (getPlatformType no_git_env) (js ''chat'')
              planned_world"
  let ?H = "handleCommand no_git_env example_conversation (normalizeCommand ?m) (snd ?G)"
  have N: "normalizeCommand ?m = ?m" by code_simp
  have H1: "startsWith (normalizeCommand ?m) (js ''/'')" by code_simp
  have H2: "\<not> startsWith (normalizeCommand ?m) (js ''/command-invoke'')" by code_simp
  have P: "getPlatformType no_git_env = js ''test''"
    by (simp add: no_git_env_def example_env_def)
  have G: "fst ?G = Inr example_conversation" by code_simp
  have H: "fst ?H = Inr ?q" by code_simp
  have S: "sessions (snd ?H) = [planned_session]" by code_simp
  have F: "fault no_git_env (SendMessage (js ''chat'') (res_message ?q)) (snd ?H) = None"
    by (simp add: no_git_env_def)
  have E: "\<not> modified ?q" "res_message ?q = js ''Failed to clone repository: git: not found''"
    by (simp_all add: failed_result_def)
  have G': "?G = (Inr example_conversation, snd ?G)"
    using G by (cases ?G) simp
  have H': "handleCommand no_git_env example_conversation (normalizeCommand ?m) (snd ?G)
            = (Inr ?q, snd ?H)"
    using H by (cases ?H) simp
  from slash_command_delegated [OF H1 H2, of no_git_env "js ''chat''" None planned_world]
    G' H' S e(1,2) E F
  have second: "fst (handleMessage no_git_env (js ''chat'') ?m None planned_world) = Inr ()
   \<and> queries (snd (handleMessage no_git_env (js ''chat'') ?m None planned_world)) = []
   \<and> sessions (snd (handleMessage no_git_env (js ''chat'') ?m None planned_world))
       = [planned_session]
   \<and> sent (snd (handleMessage no_git_env (js ''chat'') ?m None planned_world))
       = [(js ''chat'', js ''Failed to clone repository: git: not found'')]"
    by (metis append_Nil)
  from first second h1 h2 g h p n H1 H2 H P N show ?thesis
    by simp
qed

text \<open>
  C8, as the claim states it, fails: the test is on the text, not on the command word.
  The command word of \<^verbatim>\<open>/command-invokeX plan-feature\<close> is not \<^verbatim>\<open>command-invoke\<close>,
  and the command handler would answer that the command is unknown; but the text begins
  with \<^verbatim>\<open>/command-invoke\<close>, so handleMessage runs the command \<^verbatim>\<open>plan-feature\<close>: it
  creates a session, queries the AI backend and forwards the answer.
\<close>

theorem prefix_test_counterexample:
  "startsWith (normalizeCommand (js ''/command-invokeX plan-feature'')) (js ''/'')
   \<and> command (parseCommand (normalizeCommand (js ''/command-invokeX plan-feature'')))
       = js ''command-invokeX''
   \<and> fst (handleCommand (example_env (js ''stream'') [text_chunk (js ''ok'')])
             example_conversation (js ''/command-invokeX plan-feature'') linked_world)
       = Inr (failed_result (js ''Unknown command: /command-invokeX'' @ [nl, nl]
                              @ js ''Type /help to see available commands.''))
   \<and> queries (snd (handleMessage (example_env (js ''stream'') [text_chunk (js ''ok'')])
                      (js ''chat'') (js ''/command-invokeX plan-feature'') None linked_world))
       = [(js ''Do it'', js ''/workspace/repo'', None)]
   \<and> map active (sessions (snd (handleMessage (example_env (js ''stream'') [text_chunk (js ''ok'')])
                      (js ''chat'') (js ''/command-invokeX plan-feature'') None linked_world)))
       = [True]
   \<and> sent (snd (handleMessage (example_env (js ''stream'') [text_chunk (js ''ok'')])
                   (js ''chat'') (js ''/command-invokeX plan-feature'') None linked_world))
       = [(js ''chat'', js ''ok'')]"
proof (intro conjI)
  let ?env = "example_env (js ''stream'') [text_chunk (js ''ok'')]"
  let ?m = "js ''/command-invokeX plan-feature''"
  show "startsWith (normalizeCommand ?m) (js ''/'')"
    by code_simp
  show "command (parseCommand (normalizeCommand ?m)) = js ''command-invokeX''"
    by code_simp
  show "fst (handleCommand ?env example_conversation ?m linked_world)
        = Inr (failed_result (js ''Unknown command: /command-invokeX'' @ [nl, nl]
                               @ js ''Type /help to see available commands.''))"
    by code_simp
  show "queries (snd (handleMessage ?env (js ''chat'') ?m None linked_world))
        = [(js ''Do it'', js ''/workspace/repo'', None)]"
    by code_simp
  show "map active (sessions (snd (handleMessage ?env (js ''chat'') ?m None linked_world))) = [True]"
    by code_simp
  show "sent (snd (handleMessage ?env (js ''chat'') ?m None linked_world)) = [(js ''chat'', js ''ok'')]"
    by code_simp
qed

section \<open>Prompts without a codebase\<close>

lemma resolvePrompt_no_codebase:
  assumes "\<not> truthy (conv_codebase_id conversation)"
  shows "resolvePrompt env cid conversation m ctx =
     reply_and_return env cid
       (if startsWith m (js ''/command-invoke'') \<and> args (parseCommand m) = []
        then usageNotice else noCodebaseNotice)"
  using assms by (auto simp: resolvePrompt_def invokePrompt_def Let_def)

lemma reply_and_return_then:
  "io_bind (reply_and_return env cid msg)
     (\<lambda>r. case r of None \<Rightarrow> io_return () | Some (p, c) \<Rightarrow> k p c)
   = sendMessage env cid msg"
  by (rule ext)
     (simp add: reply_and_return_def io_bind_def io_return_def split: prod.split sum.split)

text \<open>
  C7. A prompt-producing message (a freeform prompt or a \<^verbatim>\<open>/command-invoke\<close>) on a
  conversation with no linked codebase creates no session and makes no query to the AI
  backend, whatever the environment does; and when the send of the reply does not
  throw, handleMessage returns normally after sending the sender one error message:
  \<^verbatim>\<open>Usage: /command-invoke <name> [args...]\<close> for a \<^verbatim>\<open>/command-invoke\<close> without a
  command name, otherwise \<^verbatim>\<open>No codebase configured. Use /clone first.\<close>
\<close>

theorem no_codebase_is_terminal:
  assumes prompt: "\<not> startsWith (normalizeCommand message) (js ''/'')
                   \<or> startsWith (normalizeCommand message) (js ''/command-invoke'')"
    and conv: "fst (getOrCreateConversation env (getPlatformType env) cid w) = Inr conversation"
    and nocb: "\<not> truthy (conv_codebase_id conversation)"
    and notice: "notice = (if startsWith (normalizeCommand message) (js ''/command-invoke'')
                              \<and> args (parseCommand (normalizeCommand message)) = []
                           then js ''Usage: /command-invoke <name> [args...]''
                           else js ''No codebase configured. Use /clone first.'')"
  shows "sessions (snd (handleMessage env cid message ctx w)) = sessions w
     \<and> queries (snd (handleMessage env cid message ctx w)) = queries w
     \<and> (fault env (SendMessage cid notice)
           (snd (getOrCreateConversation env (getPlatformType env) cid w)) = None
          \<longrightarrow> fst (handleMessage env cid message ctx w) = Inr ()
              \<and> sent (snd (handleMessage env cid message ctx w)) = sent w @ [(cid, notice)])"
proof -
  let ?m = "normalizeCommand message"
  let ?g = "getOrCreateConversation env (getPlatformType env) cid"
  let ?n = "if startsWith ?m (js ''/command-invoke'') \<and> args (parseCommand ?m) = []
            then usageNotice else noCodebaseNotice"
  let ?tail = "io_catch (sendMessage env cid ?n) (\<lambda>error. sendMessage env cid errorNotice)"
  obtain w1 where g: "?g w = (Inr conversation, w1)"
    using conv by (cases "?g w") simp
  have n: "?n = notice"
    using notice by (simp add: usageNotice_def noCodebaseNotice_def)
  have q: "quiet w w1"
    using io_relD [OF quiet_getOrCreateConversation, of w env "getPlatformType env" cid] g
    by simp
  have body: "handleMessageBody env cid message ctx w = sendMessage env cid ?n w1"
  proof -
    have "handleMessageBody env cid message ctx w
          = io_bind (resolvePrompt env cid conversation ?m ctx)
              (\<lambda>r. case r of None \<Rightarrow> io_return ()
                    | Some (promptToSend, commandName) \<Rightarrow>
                        aiConversation env cid conversation promptToSend commandName) w1"
      using prompt g by (auto simp: handleMessageBody_def Let_def io_bind_def)
    then show ?thesis
      by (simp only: resolvePrompt_no_codebase [OF nocb] reply_and_return_then)
  qed
  then have hm: "handleMessage env cid message ctx w = ?tail w1"
    by (simp add: handleMessage_def io_catch_def)
  have "io_rel same_sessions_queries ?tail"
    by (intro same_intros)
  then have "same_sessions_queries w1 (snd (?tail w1))"
    by (rule io_relD)
  with q hm have frame: "sessions (snd (handleMessage env cid message ctx w)) = sessions w
     \<and> queries (snd (handleMessage env cid message ctx w)) = queries w"
    by (simp add: same_sessions_queries_def quiet_def)
  have "fst (?tail w1) = Inr () \<and> sent (snd (?tail w1)) = sent w1 @ [(cid, ?n)]"
    if "fault env (SendMessage cid ?n) w1 = None"
    using that by (simp add: io_catch_def sendMessage_def call_def)
  with q hm frame g show ?thesis
    unfolding n by (simp add: quiet_def)
qed

text \<open>
  A first message on a new conversation: the conversation is created without a
  codebase, and the notice is all that happens.
\<close>

theorem no_codebase_is_terminal_witness:
  "\<not> startsWith (normalizeCommand (js ''hello'')) (js ''/'')
   \<and> fst (getOrCreateConversation (example_env (js ''stream'') []) (js ''test'') (js ''chat'')
             empty_world) = Inr new_conversation
   \<and> \<not> truthy (conv_codebase_id new_conversation)
   \<and> fault (example_env (js ''stream'') [])
        (SendMessage (js ''chat'') (js ''No codebase configured. Use /clone first.''))
        (snd (getOrCreateConversation (example_env (js ''stream'') []) (js ''test'') (js ''chat'')
                empty_world)) = None
   \<and> fst (handleMessage (example_env (js ''stream'') []) (js ''chat'') (js ''hello'') None
             empty_world) = Inr ()
   \<and> sessions (snd (handleMessage (example_env (js ''stream'') []) (js ''chat'') (js ''hello'') None
                       empty_world)) = []
   \<and> queries (snd (handleMessage (example_env (js ''stream'') []) (js ''chat'') (js ''hello'') None
                      empty_world)) = []
   \<and> sent (snd (handleMessage (example_env (js ''stream'') []) (js ''chat'') (js ''hello'') None
                   empty_world))
       = [(js ''chat'', js ''No codebase configured. Use /clone first.'')]"
proof -
  let ?env = "example_env (js ''stream'') []"
  let ?notice = "js ''No codebase configured. Use /clone first.''"
  have h1: "\<not> startsWith (normalizeCommand (js ''hello'')) (js ''/'')
            \<or> startsWith (normalizeCommand (js ''hello'')) (js ''/command-invoke'')"
    by code_simp
  have h1': "\<not> startsWith (normalizeCommand (js ''hello'')) (js ''/command-invoke'')"
    by code_simp
  have h4: "?notice = (if startsWith (normalizeCommand (js ''hello'')) (js ''/command-invoke'')
                          \<and> args (parseCommand (normalizeCommand (js ''hello''))) = []
                       then js ''Usage: /command-invoke <name> [args...]'' else ?notice)"
    using h1' by simp
  have p: "getPlatformType ?env = js ''test''"
    by (simp add: example_env_def)
  have g: "fst (getOrCreateConversation ?env (getPlatformType ?env) (js ''chat'') empty_world)
           = Inr new_conversation"
    by code_simp
  have n: "\<not> truthy (conv_codebase_id new_conversation)"
    by (simp add: new_conversation_def)
  have f: "fault ?env (SendMessage (js ''chat'') ?notice)
             (snd (getOrCreateConversation ?env (getPlatformType ?env) (js ''chat'') empty_world))
           = None"
    by (simp add: example_env_def)
  have e: "sessions empty_world = []" "queries empty_world = []" "sent empty_world = []"
    by (simp_all add: empty_world_def)
  from no_codebase_is_terminal [OF h1 g n h4, of None] e f
  have "fst (handleMessage ?env (js ''chat'') (js ''hello'') None empty_world) = Inr ()
   \<and> sessions (snd (handleMessage ?env (js ''chat'') (js ''hello'') None empty_world)) = []
   \<and> queries (snd (handleMessage ?env (js ''chat'') (js ''hello'') None empty_world)) = []
   \<and> sent (snd (handleMessage ?env (js ''chat'') (js ''hello'') None empty_world))
       = [(js ''chat'', ?notice)]"
    by simp
  moreover have "\<not> startsWith (normalizeCommand (js ''hello'')) (js ''/'')"
    by code_simp
  ultimately show ?thesis
    using g n p f by simp
qed

section \<open>Immediate mode\<close>

lemma streamChunk_fault_free:
  assumes "fault_free env"
  shows "\<exists>w'. streamChunk env cid session msg w = (Inr (), w')
     \<and> sent w' = sent w @ map (Pair cid) (immediate_sends env [msg])
     \<and> sessions w' = persist_tokens (sess_id session) [msg] (sessions w)
     \<and> queries w' = queries w"
  using assms
  by (simp add: streamChunk_def sendMessage_def updateSession_def formatToolCall_io_def
        call_fault_free io_return_def io_bind_def immediate_sends_def persist_tokens_def
        set_token_def)

lemma immediate_sends_Cons:
  "immediate_sends env (m # ms) = immediate_sends env [m] @ immediate_sends env ms"
  by (simp add: immediate_sends_def)

lemma persist_tokens_Cons:
  "persist_tokens sid (m # ms) ss = persist_tokens sid ms (persist_tokens sid [m] ss)"
  by (simp add: persist_tokens_def)

lemma forAwait_streamChunk_fault_free:
  assumes "fault_free env"
  shows "\<exists>w'. forAwait (streamChunk env cid session) chunks w = (Inr (), w')
     \<and> sent w' = sent w @ map (Pair cid) (immediate_sends env chunks)
     \<and> sessions w' = persist_tokens (sess_id session) chunks (sessions w)
     \<and> queries w' = queries w"
proof (induction chunks arbitrary: w)
  case Nil
  show ?case by (simp add: io_return_def immediate_sends_def persist_tokens_def)
next
  case (Cons m ms)
  obtain w1 where 1: "streamChunk env cid session m w = (Inr (), w1)"
     and s1: "sent w1 = sent w @ map (Pair cid) (immediate_sends env [m])"
     and t1: "sessions w1 = persist_tokens (sess_id session) [m] (sessions w)"
     and r1: "queries w1 = queries w"
    using streamChunk_fault_free [OF assms, of cid session m w] by blast
  obtain w2 where 2: "forAwait (streamChunk env cid session) ms w1 = (Inr (), w2)"
     and s2: "sent w2 = sent w1 @ map (Pair cid) (immediate_sends env ms)"
     and t2: "sessions w2 = persist_tokens (sess_id session) ms (sessions w1)"
     and r2: "queries w2 = queries w1"
    using Cons.IH [of w1] by blast
  have "forAwait (streamChunk env cid session) (m # ms) w = (Inr (), w2)"
    using 1 2 by (simp add: io_bind_Inr)
  moreover have "sent w2 = sent w @ map (Pair cid) (immediate_sends env (m # ms))"
    using s1 s2 by (simp add: immediate_sends_Cons [of env m ms])
  moreover have "sessions w2 = persist_tokens (sess_id session) (m # ms) (sessions w)"
    using t1 t2 by (simp add: persist_tokens_Cons [of _ m ms])
  ultimately show ?case using r1 r2 by simp
qed

lemma streamEnd_run: "streamEnd err w = ((case err of None \<Rightarrow> Inr () | Some e \<Rightarrow> Inl e), w)"
  by (simp add: streamEnd_def io_return_def io_throw_def split: option.split)

text \<open>
  C6. Immediate mode, when no collaborator throws: every assistant chunk with content
  is sent as it is, every tool chunk with a tool name is formatted and sent, and the
  token of every result chunk that carries one is stored on the session. The sends are
  in the order of the chunks, and they are made as the chunks arrive: they have been
  made also when the stream breaks off with an error after them.
\<close>

theorem stream_mode_forwards_in_order:
  assumes ff: "fault_free env"
    and q: "sendQuery env aiClient prompt cwd (or_undefined (assistant_session_id session))
            = (chunks, err)"
  shows "fst (streamMode env cid aiClient session prompt cwd w)
           = (case err of None \<Rightarrow> Inr () | Some e \<Rightarrow> Inl e)
     \<and> sent (snd (streamMode env cid aiClient session prompt cwd w))
           = sent w @ map (Pair cid) (immediate_sends env chunks)
     \<and> sessions (snd (streamMode env cid aiClient session prompt cwd w))
           = persist_tokens (sess_id session) chunks (sessions w)
     \<and> queries (snd (streamMode env cid aiClient session prompt cwd w))
           = queries w @ [(prompt, cwd, or_undefined (assistant_session_id session))]"
proof -
  let ?tok = "or_undefined (assistant_session_id session)"
  let ?w0 = "(tick w)\<lparr>queries := queries w @ [(prompt, cwd, ?tok)]\<rparr>"
  have o: "openQuery env aiClient prompt cwd ?tok w = (Inr (chunks, err), ?w0)"
    using ff q by (simp add: openQuery_def call_fault_free)
  obtain w1 where l: "forAwait (streamChunk env cid session) chunks ?w0 = (Inr (), w1)"
     and s: "sent w1 = sent ?w0 @ map (Pair cid) (immediate_sends env chunks)"
     and t: "sessions w1 = persist_tokens (sess_id session) chunks (sessions ?w0)"
     and r: "queries w1 = queries ?w0"
    using forAwait_streamChunk_fault_free [OF ff, of cid session chunks ?w0] by blast
  have "streamMode env cid aiClient session prompt cwd w
        = ((case err of None \<Rightarrow> Inr () | Some e \<Rightarrow> Inl e), w1)"
    using o l by (simp add: streamMode_def io_bind_def streamEnd_run)
  with s t r show ?thesis by simp
qed

text \<open>
  Three assistant chunks and one tool chunk: four sends, in the order of the stream,
  from streamMode and from handleMessage as a whole.
\<close>

theorem stream_mode_forwards_in_order_witness:
  "fault_free (example_env (js ''stream'') four_chunks)
   \<and> sendQuery (example_env (js ''stream'') four_chunks) (js ''claude'') (js ''hello'')
        (js ''/workspace/repo'') (or_undefined (assistant_session_id planned_session))
      = (four_chunks, None)
   \<and> fst (streamMode (example_env (js ''stream'') four_chunks) (js ''chat'') (js ''claude'')
             planned_session (js ''hello'') (js ''/workspace/repo'') planned_world) = Inr ()
   \<and> sent (snd (streamMode (example_env (js ''stream'') four_chunks) (js ''chat'') (js ''claude'')
                   planned_session (js ''hello'') (js ''/workspace/repo'') planned_world))
      = [(js ''chat'', js ''a''), (js ''chat'', js ''TOOL Read''), (js ''chat'', js ''b''),
         (js ''chat'', js ''c'')]
   \<and> sent (snd (handleMessage (example_env (js ''stream'') four_chunks) (js ''chat'')
                   (js ''hello'') None linked_world))
      = [(js ''chat'', js ''a''), (js ''chat'', js ''TOOL Read''), (js ''chat'', js ''b''),
         (js ''chat'', js ''c'')]"
proof -
  let ?env = "example_env (js ''stream'') four_chunks"
  have q: "sendQuery ?env (js ''claude'') (js ''hello'') (js ''/workspace/repo'')
             (or_undefined (assistant_session_id planned_session)) = (four_chunks, None)"
    by (simp add: example_env_def)
  have i: "map (Pair (js ''chat'')) (immediate_sends ?env four_chunks)
           = [(js ''chat'', js ''a''), (js ''chat'', js ''TOOL Read''), (js ''chat'', js ''b''),
              (js ''chat'', js ''c'')]"
    by code_simp
  have e: "sent planned_world = []"
    by (simp add: planned_world_def linked_world_def empty_world_def)
  have h: "sent (snd (handleMessage ?env (js ''chat'') (js ''hello'') None linked_world))
      = [(js ''chat'', js ''a''), (js ''chat'', js ''TOOL Read''), (js ''chat'', js ''b''),
         (js ''chat'', js ''c'')]"
    by code_simp
  from stream_mode_forwards_in_order [OF fault_free_example_env q, of "js ''chat''" planned_world]
  show ?thesis
    using q i e h fault_free_example_env [of "js ''stream''" four_chunks] by simp
qed

section \<open>Deduplicated-summary mode\<close>

lemma assistant_texts_Cons:
  "assistant_texts (m # ms) = assistant_texts [m] @ assistant_texts ms"
  by (simp add: assistant_texts_def)

lemma batchChunk_fault_free:
  assumes "fault_free env"
  shows "\<exists>w'. batchChunk env session msg acc w = (Inr (acc @ assistant_texts [msg]), w')
     \<and> sent w' = sent w
     \<and> sessions w' = persist_tokens (sess_id session) [msg] (sessions w)
     \<and> queries w' = queries w"
  using assms
  by (simp add: batchChunk_def updateSession_def formatToolCall_io_def
        call_fault_free io_return_def io_bind_def assistant_texts_def persist_tokens_def
        set_token_def)

lemma batchLoop_fault_free:
  assumes "fault_free env"
  shows "\<exists>w'. batchLoop env session chunks acc w = (Inr (acc @ assistant_texts chunks), w')
     \<and> sent w' = sent w
     \<and> sessions w' = persist_tokens (sess_id session) chunks (sessions w)
     \<and> queries w' = queries w"
proof (induction chunks arbitrary: w acc)
  case Nil
  show ?case by (simp add: io_return_def assistant_texts_def persist_tokens_def)
next
  case (Cons m ms)
  obtain w1 where 1: "batchChunk env session m acc w = (Inr (acc @ assistant_texts [m]), w1)"
     and s1: "sent w1 = sent w"
     and t1: "sessions w1 = persist_tokens (sess_id session) [m] (sessions w)"
     and r1: "queries w1 = queries w"
    using batchChunk_fault_free [OF assms, of session m acc w] by blast
  obtain w2 where 2: "batchLoop env session ms (acc @ assistant_texts [m]) w1
                      = (Inr ((acc @ assistant_texts [m]) @ assistant_texts ms), w2)"
     and s2: "sent w2 = sent w1"
     and t2: "sessions w2 = persist_tokens (sess_id session) ms (sessions w1)"
     and r2: "queries w2 = queries w1"
    using Cons.IH [of "acc @ assistant_texts [m]" w1] by blast
  have "batchLoop env session (m # ms) acc w = (Inr (acc @ assistant_texts (m # ms)), w2)"
    using 1 2 by (simp add: io_bind_def assistant_texts_Cons [of m ms])
  moreover have "sessions w2 = persist_tokens (sess_id session) (m # ms) (sessions w)"
    using t1 t2 by (simp add: persist_tokens_Cons [of _ m ms])
  ultimately show ?case using s1 s2 r1 r2 by simp
qed

lemma assistant_texts_nonempty: "t \<in> set (assistant_texts chunks) \<Longrightarrow> t \<noteq> []"
  by (auto simp: assistant_texts_def or_else_def elim: truthy.elims)

lemma finalMessage_nonempty:
  assumes "assistant_texts chunks \<noteq> []"
  shows "finalMessage (assistant_texts chunks) \<noteq> []"
proof -
  have "last (assistant_texts chunks) \<noteq> []"
    using assms assistant_texts_nonempty [of "last (assistant_texts chunks)" chunks] by simp
  with assms show ?thesis by (simp add: finalMessage_def Let_def)
qed

text \<open>
  C4, as the code has it. Deduplicated-summary mode, when no collaborator throws:
  nothing is sent while the stream runs, and nothing at all when it breaks off with an
  error or has no assistant chunk with content. Otherwise exactly one message is sent
  after the stream: the sections of the last assistant text that do not begin with a
  tool indicator, rejoined and trimmed; or the last assistant text as it is when
  nothing is left of that, as when every section begins with a tool indicator. The
  tokens of the result chunks are stored on the session.
\<close>

theorem batch_mode_sends_one_summary:
  assumes ff: "fault_free env"
    and q: "sendQuery env aiClient prompt cwd (or_undefined (assistant_session_id session))
            = (chunks, err)"
  shows "fst (batchMode env cid aiClient session prompt cwd w)
           = (case err of None \<Rightarrow> Inr () | Some e \<Rightarrow> Inl e)
     \<and> sent (snd (batchMode env cid aiClient session prompt cwd w))
           = sent w @ (if err = None \<and> assistant_texts chunks \<noteq> []
                       then [(cid, finalMessage (assistant_texts chunks))] else [])
     \<and> sessions (snd (batchMode env cid aiClient session prompt cwd w))
           = persist_tokens (sess_id session) chunks (sessions w)
     \<and> (assistant_texts chunks \<noteq> [] \<longrightarrow>
          finalMessage (assistant_texts chunks) \<noteq> []
          \<and> (let lastMessage = last (assistant_texts chunks);
                  summary = trim (join [nl, nl] (filter (\<lambda>sec. \<not> isToolSection sec)
                                                    (split_str [nl, nl] lastMessage)))
              in finalMessage (assistant_texts chunks)
                   = (if summary = [] then lastMessage else summary)
                 \<and> (list_all isToolSection (split_str [nl, nl] lastMessage)
                      \<longrightarrow> finalMessage (assistant_texts chunks) = lastMessage)))"
proof -
  let ?tok = "or_undefined (assistant_session_id session)"
  let ?w0 = "(tick w)\<lparr>queries := queries w @ [(prompt, cwd, ?tok)]\<rparr>"
  let ?texts = "assistant_texts chunks"
  have o: "openQuery env aiClient prompt cwd ?tok w = (Inr (chunks, err), ?w0)"
    using ff q by (simp add: openQuery_def call_fault_free)
  obtain w1 where l: "batchLoop env session chunks [] ?w0 = (Inr ?texts, w1)"
     and s: "sent w1 = sent ?w0"
     and t: "sessions w1 = persist_tokens (sess_id session) chunks (sessions ?w0)"
    using batchLoop_fault_free [OF ff, of session chunks "[]" ?w0] by auto
  have run: "batchMode env cid aiClient session prompt cwd w
        = (case err of
             Some e \<Rightarrow> (Inl e, w1)
           | None \<Rightarrow> (if finalMessage ?texts \<noteq> []
                       then sendMessage env cid (finalMessage ?texts) w1
                       else (Inr (), w1)))"
    using o l
    by (simp add: batchMode_def io_bind_def streamEnd_run io_return_def split: option.split)
  have ne: "finalMessage ?texts \<noteq> [] \<longleftrightarrow> ?texts \<noteq> []"
    using finalMessage_nonempty [of chunks] by (auto simp: finalMessage_def)
  have 1: "fst (batchMode env cid aiClient session prompt cwd w)
           = (case err of None \<Rightarrow> Inr () | Some e \<Rightarrow> Inl e)"
    using ff by (simp add: run sendMessage_def call_fault_free split: option.split)
  have 2: "sent (snd (batchMode env cid aiClient session prompt cwd w))
           = sent w @ (if err = None \<and> ?texts \<noteq> [] then [(cid, finalMessage ?texts)] else [])"
    using ff s ne by (simp add: run sendMessage_def call_fault_free split: option.split)
  have 3: "sessions (snd (batchMode env cid aiClient session prompt cwd w))
           = persist_tokens (sess_id session) chunks (sessions w)"
    using ff t by (simp add: run sendMessage_def call_fault_free split: option.split)
  have 4: "finalMessage ?texts = last ?texts"
    if "?texts \<noteq> []" "list_all isToolSection (split_str [nl, nl] (last ?texts))"
  proof -
    have "filter (\<lambda>sec. \<not> isToolSection sec) (split_str [nl, nl] (last ?texts)) = []"
      using that(2) by (simp add: list_all_iff)
    then show ?thesis
      using that(1) by (simp add: finalMessage_def cleanSections_def trim_def)
  qed
  show ?thesis
    using 1 2 3 4 finalMessage_nonempty [of chunks]
    by (simp add: Let_def finalMessage_def cleanSections_def)
qed

text \<open>
  A tool section and a summary: the summary alone is sent. Two tool sections: the whole
  text is sent. No assistant chunk: nothing is sent.
\<close>

theorem batch_mode_sends_one_summary_witness:
  "fault_free (example_env (js ''batch'') [text_chunk (js ''a''), text_chunk tool_then_summary])
   \<and> sendQuery (example_env (js ''batch'') [text_chunk (js ''a''), text_chunk tool_then_summary])
        (js ''claude'') (js ''hello'') (js ''/workspace/repo'')
        (or_undefined (assistant_session_id planned_session))
      = ([text_chunk (js ''a''), text_chunk tool_then_summary], None)
   \<and> assistant_texts [text_chunk (js ''a''), text_chunk tool_then_summary] \<noteq> []
   \<and> fst (batchMode (example_env (js ''batch'') [text_chunk (js ''a''), text_chunk tool_then_summary])
             (js ''chat'') (js ''claude'') planned_session (js ''hello'') (js ''/workspace/repo'')
             planned_world) = Inr ()
   \<and> sent (snd (batchMode (example_env (js ''batch'') [text_chunk (js ''a''), text_chunk tool_then_summary])
                   (js ''chat'') (js ''claude'') planned_session (js ''hello'')
                   (js ''/workspace/repo'') planned_world))
      = [(js ''chat'', js ''All done.'')]
   \<and> sent (snd (handleMessage (example_env (js ''batch'') [text_chunk two_tool_sections])
                   (js ''chat'') (js ''hello'') None linked_world))
      = [(js ''chat'', two_tool_sections)]
   \<and> sent (snd (handleMessage (example_env (js ''batch'') [tool_chunk (js ''Read'')])
                   (js ''chat'') (js ''hello'') None linked_world)) = []"
proof -
  let ?chunks = "[text_chunk (js ''a''), text_chunk tool_then_summary]"
  let ?env = "example_env (js ''batch'') ?chunks"
  have q: "sendQuery ?env (js ''claude'') (js ''hello'') (js ''/workspace/repo'')
             (or_undefined (assistant_session_id planned_session)) = (?chunks, None)"
    by (simp add: example_env_def)
  have t: "assistant_texts ?chunks \<noteq> []"
    by code_simp
  have f: "finalMessage (assistant_texts ?chunks) = js ''All done.''"
    by code_simp
  have e: "sent planned_world = []"
    by (simp add: planned_world_def linked_world_def empty_world_def)
  have h1: "sent (snd (handleMessage (example_env (js ''batch'') [text_chunk two_tool_sections])
                   (js ''chat'') (js ''hello'') None linked_world))
      = [(js ''chat'', two_tool_sections)]"
    by code_simp
  have h2: "sent (snd (handleMessage (example_env (js ''batch'') [tool_chunk (js ''Read'')])
                   (js ''chat'') (js ''hello'') None linked_world)) = []"
    by code_simp
  from batch_mode_sends_one_summary [OF fault_free_example_env q, of "js ''chat''" planned_world]
  have "fst (batchMode ?env (js ''chat'') (js ''claude'') planned_session (js ''hello'')
               (js ''/workspace/repo'') planned_world) = Inr ()
     \<and> sent (snd (batchMode ?env (js ''chat'') (js ''claude'') planned_session (js ''hello'')
                   (js ''/workspace/repo'') planned_world)) = [(js ''chat'', js ''All done.'')]"
    using t f e by simp
  then show ?thesis
    using q t h1 h2 fault_free_example_env [of "js ''batch''" ?chunks] by simp
qed

text \<open>
  C4, as the claim states it, fails: the last assistant text \<^verbatim>\<open>Done.\<close> with a
  newline after it has one section, which is kept; rejoined it is the text itself, but
  what is sent is the text without the newline.
\<close>

theorem batch_summary_is_trimmed_counterexample:
  "assistant_texts [text_chunk (js ''Done.'' @ [nl])] = [js ''Done.'' @ [nl]]
   \<and> spec_summary (js ''Done.'' @ [nl]) = js ''Done.'' @ [nl]
   \<and> sent (snd (handleMessage (example_env (js ''batch'') [text_chunk (js ''Done.'' @ [nl])])
                   (js ''chat'') (js ''hello'') None linked_world))
      = [(js ''chat'', js ''Done.'')]
   \<and> sent (snd (handleMessage (example_env (js ''batch'') [text_chunk (js ''Done.'' @ [nl])])
                   (js ''chat'') (js ''hello'') None linked_world))
      \<noteq> [(js ''chat'', spec_summary (js ''Done.'' @ [nl]))]"
  by code_simp

section \<open>The top-level error handler\<close>




section \<open>Creating, resuming and rotating the session\<close>

lemma resolveSession_fault_free:
  assumes ff: "fault_free env"
  shows "\<exists>session cwd w1. resolveSession env c cn w = (Inr (session, cwd), w1)
     \<and> queries w1 = queries w \<and> sent w1 = sent w
     \<and> (case find (\<lambda>s. sess_conversation_id s = conv_id c \<and> active s) (sessions w) of
          None \<Rightarrow> sessions w1 = sessions w @ [session]
                    \<and> assistant_session_id session = None \<and> active session
        | Some old \<Rightarrow>
            if needsNewSession cn (Some old)
            then sessions w1 = deactivate_in {sess_id old} (sessions w) @ [session]
                 \<and> assistant_session_id session = None \<and> active session
            else session = old \<and> sessions w1 = sessions w)"
  using ff
  by (simp add: resolveSession_def getActiveSession_def getCodebase_def deactivateSession_def
        newSession_def createSession_def call_fault_free io_bind_def io_return_def Let_def
        needsNewSession_def lastCommand_def deactivate_in_def
      split: option.split)

lemma streamMode_queries:
  assumes ff: "fault_free env"
  shows "queries (snd (streamMode env cid client session prompt cwd w))
         = queries w @ [(prompt, cwd, or_undefined (assistant_session_id session))]"
proof -
  let ?tok = "or_undefined (assistant_session_id session)"
  let ?w0 = "(tick w)\<lparr>queries := queries w @ [(prompt, cwd, ?tok)]\<rparr>"
  obtain chunks err where q: "sendQuery env client prompt cwd ?tok = (chunks, err)"
    by (cases "sendQuery env client prompt cwd ?tok")
  have o: "openQuery env client prompt cwd ?tok w = (Inr (chunks, err), ?w0)"
    using ff q by (simp add: openQuery_def call_fault_free)
  obtain w1 where l: "forAwait (streamChunk env cid session) chunks ?w0 = (Inr (), w1)"
     and r: "queries w1 = queries ?w0"
    using forAwait_streamChunk_fault_free [OF ff, of cid session chunks ?w0] by blast
  have "snd (streamMode env cid client session prompt cwd w) = w1"
    using o l by (simp add: streamMode_def io_bind_def streamEnd_run)
  with r show ?thesis by simp
qed

lemma batchMode_queries:
  assumes ff: "fault_free env"
  shows "queries (snd (batchMode env cid client session prompt cwd w))
         = queries w @ [(prompt, cwd, or_undefined (assistant_session_id session))]"
proof -
  let ?tok = "or_undefined (assistant_session_id session)"
  let ?w0 = "(tick w)\<lparr>queries := queries w @ [(prompt, cwd, ?tok)]\<rparr>"
  obtain chunks err where q: "sendQuery env client prompt cwd ?tok = (chunks, err)"
    by (cases "sendQuery env client prompt cwd ?tok")
  have o: "openQuery env client prompt cwd ?tok w = (Inr (chunks, err), ?w0)"
    using ff q by (simp add: openQuery_def call_fault_free)
  obtain w1 where l: "batchLoop env session chunks [] ?w0 = (Inr (assistant_texts chunks), w1)"
     and r: "queries w1 = queries ?w0"
    using batchLoop_fault_free [OF ff, of session chunks "[]" ?w0] by auto
  have "queries (snd (batchMode env cid client session prompt cwd w)) = queries w1"
    using o l ff
    by (simp add: batchMode_def io_bind_def streamEnd_run io_return_def sendMessage_def
          call_fault_free split: option.split)
  with r show ?thesis by simp
qed

lemma aiConversation_queries:
  assumes ff: "fault_free env"
    and rs: "resolveSession env c cn (tick w) = (Inr (session, cwd), w1)"
  shows "queries (snd (aiConversation env cid c prompt cn w))
         = queries w1 @ [(prompt, cwd, or_undefined (assistant_session_id session))]"
proof -
  let ?mode = "if getStreamingMode env = js ''stream''
               then streamMode env cid (conv_ai_assistant_type c) session prompt cwd
               else batchMode env cid (conv_ai_assistant_type c) session prompt cwd"
  have m: "queries (snd (?mode w1))
           = queries w1 @ [(prompt, cwd, or_undefined (assistant_session_id session))]"
    using streamMode_queries [OF ff] batchMode_queries [OF ff] by simp
  have "queries (snd (aiConversation env cid c prompt cn w)) = queries (snd (?mode w1))"
    using ff rs
    by (cases "?mode w1")
       (auto simp: aiConversation_def getAssistantClient_def call_fault_free io_bind_def
          io_return_def updateSessionMetadata_def split: sum.split)
  with m show ?thesis by simp
qed

lemma resolvePrompt_commandName:
  assumes "fst (resolvePrompt env cid c m ctx w) = Inr (Some (prompt, cn))"
  shows "cn = (if startsWith m (js ''/command-invoke'')
               then Some (hd (args (parseCommand m))) else None)"
proof -
  have r: "fst (reply_and_return env cid t w') \<noteq> Inr (Some x)" for t w' and x :: "jsstring \<times> jsstring option"
    by (simp add: reply_and_return_def io_bind_def io_return_def split: prod.split sum.split)
  show ?thesis
    using assms r
    by (auto simp: resolvePrompt_def invokePrompt_def Let_def io_bind_def io_return_def
          io_catch_def io_throw_def
        split: if_splits prod.splits sum.splits option.splits property.splits)
qed

text \<open>
  C2, as the code has it. Take a message that handleMessage turns into a prompt: a
  freeform text, or a \<^verbatim>\<open>/command-invoke\<close> whose command is registered and whose
  file is read; and let no collaborator throw. The command name is the first argument
  of the invocation, and there is none for a freeform text. Then exactly one query is
  made, after the session has been settled, with the token of the session that was
  settled on. If the conversation has an active session whose last command is
  \<^verbatim>\<open>plan-feature\<close> and the command is \<^verbatim>\<open>execute\<close>, that session is deactivated
  and the session settled on is a new one, active and without a token, so the query
  carries no token. If it has an active session otherwise, that session is the one
  settled on, nothing changes in the sessions, and the query carries its stored token.
  If it has no active session, the session settled on is a new one, active and without
  a token.
\<close>

theorem plan_execute_rotation:
  assumes ff: "fault_free env"
    and routed: "\<not> startsWith (normalizeCommand message) (js ''/'')
                 \<or> startsWith (normalizeCommand message) (js ''/command-invoke'')"
    and conv: "fst (getOrCreateConversation env (getPlatformType env) cid w) = Inr conversation"
    and prompt:
      "fst (resolvePrompt env cid conversation (normalizeCommand message) ctx
              (snd (getOrCreateConversation env (getPlatformType env) cid w)))
       = Inr (Some (promptToSend, commandName))"
  shows "commandName
           = (if startsWith (normalizeCommand message) (js ''/command-invoke'')
              then Some (hd (args (parseCommand (normalizeCommand message)))) else None)
     \<and> (\<exists>session cwd w0 w1.
          sessions w0 = sessions w \<and> queries w0 = queries w
          \<and> resolveSession env conversation commandName w0 = (Inr (session, cwd), w1)
          \<and> queries w1 = queries w
          \<and> queries (snd (handleMessage env cid message ctx w))
              = queries w @ [(promptToSend, cwd, or_undefined (assistant_session_id session))]
          \<and> (case find (\<lambda>s. sess_conversation_id s = conv_id conversation \<and> active s)
                     (sessions w) of
                None \<Rightarrow> sessions w1 = sessions w @ [session]
                          \<and> assistant_session_id session = None \<and> active session
              | Some old \<Rightarrow>
                  if commandName = Some (js ''execute'')
                     \<and> lastCommand (Some old) = Some (js ''plan-feature'')
                  then sessions w1 = deactivate_in {sess_id old} (sessions w) @ [session]
                       \<and> assistant_session_id session = None \<and> active session
                  else session = old \<and> sessions w1 = sessions w))"
proof
  show "commandName
           = (if startsWith (normalizeCommand message) (js ''/command-invoke'')
              then Some (hd (args (parseCommand (normalizeCommand message)))) else None)"
    using prompt by (rule resolvePrompt_commandName)
next
  let ?m = "normalizeCommand message"
  let ?g = "getOrCreateConversation env (getPlatformType env) cid"
  let ?rp = "resolvePrompt env cid conversation ?m ctx"
  obtain wc where g: "?g w = (Inr conversation, wc)"
    using conv by (cases "?g w") simp
  obtain wr where rp: "?rp wc = (Inr (Some (promptToSend, commandName)), wr)"
    using prompt g by (cases "?rp wc") simp
  have fc: "quiet w wc"
    using io_relD [OF quiet_getOrCreateConversation, of w env "getPlatformType env" cid] g
    by simp
  have fr: "same_sessions_queries wc wr"
    using io_relD [OF same_resolvePrompt, of wc env cid conversation ?m ctx] rp by simp
  obtain w0 where w0: "w0 = tick wr"
    by simp
  have sq: "sessions w0 = sessions w" "queries w0 = queries w"
    using fc fr w0 by (simp_all add: quiet_def same_sessions_queries_def)
  obtain session cwd w1 where
        rs: "resolveSession env conversation commandName w0 = (Inr (session, cwd), w1)"
    and q1: "queries w1 = queries w0"
    and cs: "case find (\<lambda>s. sess_conversation_id s = conv_id conversation \<and> active s)
                    (sessions w0) of
               None \<Rightarrow> sessions w1 = sessions w0 @ [session]
                         \<and> assistant_session_id session = None \<and> active session
             | Some old \<Rightarrow>
                 if needsNewSession commandName (Some old)
                 then sessions w1 = deactivate_in {sess_id old} (sessions w0) @ [session]
                      \<and> assistant_session_id session = None \<and> active session
                 else session = old \<and> sessions w1 = sessions w0"
    using resolveSession_fault_free [OF ff, of conversation commandName w0] by blast
  have body: "handleMessageBody env cid message ctx w
              = aiConversation env cid conversation promptToSend commandName wr"
    using routed g rp by (auto simp: handleMessageBody_def Let_def io_bind_def)
  have "queries (snd (handleMessage env cid message ctx w))
        = queries (snd (aiConversation env cid conversation promptToSend commandName wr))"
  proof (cases "aiConversation env cid conversation promptToSend commandName wr")
    case (Pair r w2)
    have "same_sessions_queries w2 (snd (sendMessage env cid errorNotice w2))"
      using same_sendMessage by (rule io_relD)
    with Pair body show ?thesis
      by (cases r) (simp_all add: handleMessage_def io_catch_def same_sessions_queries_def)
  qed
  also have "\<dots> = queries w1 @ [(promptToSend, cwd, or_undefined (assistant_session_id session))]"
    using aiConversation_queries [OF ff rs [unfolded w0]] .
  finally have qs: "queries (snd (handleMessage env cid message ctx w))
        = queries w @ [(promptToSend, cwd, or_undefined (assistant_session_id session))]"
    using q1 sq by simp
  show "\<exists>session cwd w0 w1.
          sessions w0 = sessions w \<and> queries w0 = queries w
          \<and> resolveSession env conversation commandName w0 = (Inr (session, cwd), w1)
          \<and> queries w1 = queries w
          \<and> queries (snd (handleMessage env cid message ctx w))
              = queries w @ [(promptToSend, cwd, or_undefined (assistant_session_id session))]
          \<and> (case find (\<lambda>s. sess_conversation_id s = conv_id conversation \<and> active s)
                     (sessions w) of
                None \<Rightarrow> sessions w1 = sessions w @ [session]
                          \<and> assistant_session_id session = None \<and> active session
              | Some old \<Rightarrow>
                  if commandName = Some (js ''execute'')
                     \<and> lastCommand (Some old) = Some (js ''plan-feature'')
                  then sessions w1 = deactivate_in {sess_id old} (sessions w) @ [session]
                       \<and> assistant_session_id session = None \<and> active session
                  else session = old \<and> sessions w1 = sessions w)"
    using sq rs q1 qs cs [unfolded sq needsNewSession_def]
    by (rule_tac x = session in exI, rule_tac x = cwd in exI, rule_tac x = w0 in exI,
        rule_tac x = w1 in exI)
       (simp split: option.splits)
qed

text \<open>
  An \<^verbatim>\<open>execute\<close> after a \<^verbatim>\<open>plan-feature\<close>: the old session is deactivated and
  keeps its token; the query carries no token; the new session gets the token that the
  backend reports, and \<^verbatim>\<open>execute\<close> as its last command.
\<close>

theorem plan_execute_rotation_witness:
  "fault_free (example_env (js ''stream'') [result_chunk (js ''tok2'')])
   \<and> startsWith (normalizeCommand (js ''/command-invoke execute'')) (js ''/command-invoke'')
   \<and> fst (getOrCreateConversation (example_env (js ''stream'') [result_chunk (js ''tok2'')])
             (js ''test'') (js ''chat'') planned_world) = Inr example_conversation
   \<and> fst (resolvePrompt (example_env (js ''stream'') [result_chunk (js ''tok2'')]) (js ''chat'')
             example_conversation (normalizeCommand (js ''/command-invoke execute'')) None
             (snd (getOrCreateConversation (example_env (js ''stream'') [result_chunk (js ''tok2'')])
                     (js ''test'') (js ''chat'') planned_world)))
       = Inr (Some (js ''Do it'', Some (js ''execute'')))
   \<and> find (\<lambda>s. sess_conversation_id s = conv_id example_conversation \<and> active s)
        (sessions planned_world) = Some planned_session
   \<and> lastCommand (Some planned_session) = Some (js ''plan-feature'')
   \<and> (\<exists>session cwd w0 w1.
         sessions w0 = sessions planned_world
         \<and> resolveSession (example_env (js ''stream'') [result_chunk (js ''tok2'')])
              example_conversation (Some (js ''execute'')) w0 = (Inr (session, cwd), w1)
         \<and> queries (snd (handleMessage (example_env (js ''stream'') [result_chunk (js ''tok2'')])
                           (js ''chat'') (js ''/command-invoke execute'') None planned_world))
             = [(js ''Do it'', cwd, None)]
         \<and> sessions w1 = [planned_session\<lparr>active := False\<rparr>, session]
         \<and> assistant_session_id session = None \<and> active session)
   \<and> queries (snd (handleMessage (example_env (js ''stream'') [result_chunk (js ''tok2'')])
                      (js ''chat'') (js ''/command-invoke execute'') None planned_world))
       = [(js ''Do it'', js ''/workspace/repo'', None)]
   \<and> map (\<lambda>s. (active s, assistant_session_id s, lastCommand (Some s)))
         (sessions (snd (handleMessage (example_env (js ''stream'') [result_chunk (js ''tok2'')])
                           (js ''chat'') (js ''/command-invoke execute'') None planned_world)))
       = [(False, Some (js ''tok1''), Some (js ''plan-feature'')),
          (True, Some (js ''tok2''), Some (js ''execute''))]"
proof -
  let ?env = "example_env (js ''stream'') [result_chunk (js ''tok2'')]"
  let ?msg = "js ''/command-invoke execute''"
  have ff: "fault_free ?env"
    by (rule fault_free_example_env)
  have p: "getPlatformType ?env = js ''test''"
    by (simp add: example_env_def)
  have r: "startsWith (normalizeCommand ?msg) (js ''/command-invoke'')"
    by code_simp
  then have routed: "\<not> startsWith (normalizeCommand ?msg) (js ''/'')
                     \<or> startsWith (normalizeCommand ?msg) (js ''/command-invoke'')"
    by simp
  have g: "fst (getOrCreateConversation ?env (getPlatformType ?env) (js ''chat'') planned_world)
           = Inr example_conversation"
    by code_simp
  have rp: "fst (resolvePrompt ?env (js ''chat'') example_conversation (normalizeCommand ?msg) None
                   (snd (getOrCreateConversation ?env (getPlatformType ?env) (js ''chat'')
                           planned_world)))
            = Inr (Some (js ''Do it'', Some (js ''execute'')))"
    by code_simp
  have f: "find (\<lambda>s. sess_conversation_id s = conv_id example_conversation \<and> active s)
             (sessions planned_world) = Some planned_session"
    by code_simp
  have l: "lastCommand (Some planned_session) = Some (js ''plan-feature'')"
    by code_simp
  have d: "deactivate_in {sess_id planned_session} (sessions planned_world)
           = [planned_session\<lparr>active := False\<rparr>]"
    by (simp add: deactivate_in_def planned_world_def)
  have e: "queries planned_world = []"
    by (simp add: planned_world_def linked_world_def empty_world_def)
  have q: "queries (snd (handleMessage ?env (js ''chat'') ?msg None planned_world))
           = [(js ''Do it'', js ''/workspace/repo'', None)]"
    by code_simp
  have s: "map (\<lambda>s. (active s, assistant_session_id s, lastCommand (Some s)))
             (sessions (snd (handleMessage ?env (js ''chat'') ?msg None planned_world)))
           = [(False, Some (js ''tok1''), Some (js ''plan-feature'')),
              (True, Some (js ''tok2''), Some (js ''execute''))]"
    by code_simp
  from plan_execute_rotation [OF ff routed g rp]
  obtain session cwd w0 w1 where
        "sessions w0 = sessions planned_world"
    and "resolveSession ?env example_conversation (Some (js ''execute'')) w0
         = (Inr (session, cwd), w1)"
    and "queries (snd (handleMessage ?env (js ''chat'') ?msg None planned_world))
         = queries planned_world @ [(js ''Do it'', cwd, or_undefined (assistant_session_id session))]"
    and "sessions w1 = deactivate_in {sess_id planned_session} (sessions planned_world) @ [session]
         \<and> assistant_session_id session = None \<and> active session"
    using f l by auto
  then have "\<exists>session cwd w0 w1.
         sessions w0 = sessions planned_world
         \<and> resolveSession ?env example_conversation (Some (js ''execute'')) w0
             = (Inr (session, cwd), w1)
         \<and> queries (snd (handleMessage ?env (js ''chat'') ?msg None planned_world))
             = [(js ''Do it'', cwd, None)]
         \<and> sessions w1 = [planned_session\<lparr>active := False\<rparr>, session]
         \<and> assistant_session_id session = None \<and> active session"
    using d e by (auto simp: or_undefined_def)
  then show ?thesis
    using ff r g rp f l q s p by simp
qed

text \<open>
  C2, as the claim states it, fails: when \<^verbatim>\<open>execute\<close> is not a registered command
  of the codebase, an \<^verbatim>\<open>execute\<close> after a \<^verbatim>\<open>plan-feature\<close> is answered with a
  notice; the active session stays active, no session is created and no query is made.
\<close>

theorem unregistered_execute_counterexample:
  "args (parseCommand (normalizeCommand (js ''/command-invoke execute''))) = [js ''execute'']
   \<and> find (\<lambda>s. sess_conversation_id s = js ''c1'' \<and> active s) (sessions plan_only_world)
       = Some planned_session
   \<and> lastCommand (Some planned_session) = Some (js ''plan-feature'')
   \<and> sessions (snd (handleMessage (example_env (js ''stream'') []) (js ''chat'')
                       (js ''/command-invoke execute'') None plan_only_world))
       = [planned_session]
   \<and> active planned_session
   \<and> queries (snd (handleMessage (example_env (js ''stream'') []) (js ''chat'')
                      (js ''/command-invoke execute'') None plan_only_world)) = []
   \<and> sent (snd (handleMessage (example_env (js ''stream'') []) (js ''chat'')
                   (js ''/command-invoke execute'') None plan_only_world))
       = [(js ''chat'', js ''Command '' @ [squote] @ js ''execute'' @ [squote]
                        @ js '' not found. Use /commands to see available.'')]"
  by code_simp

section \<open>At most one active session per conversation\<close>

lemma preservesD: "preserves I m \<Longrightarrow> I w \<Longrightarrow> I (snd (m w))"
  by (simp add: preserves_def)

lemma preserves_return: "preserves I (io_return x)"
  by (simp add: preserves_def io_return_def)

lemma preserves_bind:
  assumes "preserves I m" "\<And>x. preserves I (f x)"
  shows "preserves I (io_bind m f)"
proof -
  have "I (snd (io_bind m f w))" if "I w" for w
  proof (cases "m w")
    case (Pair r w1)
    have 1: "I w1" using preservesD [OF assms(1) that] Pair by simp
    show ?thesis
    proof (cases r)
      case (Inl e)
      with Pair 1 show ?thesis by (simp add: io_bind_def)
    next
      case (Inr x)
      with Pair preservesD [OF assms(2) 1, of x] show ?thesis by (simp add: io_bind_def)
    qed
  qed
  then show ?thesis by (simp add: preserves_def)
qed

lemma preserves_catch:
  assumes "preserves I m" "\<And>e. preserves I (h e)"
  shows "preserves I (io_catch m h)"
proof -
  have "I (snd (io_catch m h w))" if "I w" for w
  proof (cases "m w")
    case (Pair r w1)
    have 1: "I w1" using preservesD [OF assms(1) that] Pair by simp
    show ?thesis
    proof (cases r)
      case (Inr x)
      with Pair 1 show ?thesis by (simp add: io_catch_def)
    next
      case (Inl e)
      with Pair preservesD [OF assms(2) 1, of e] show ?thesis by (simp add: io_catch_def)
    qed
  qed
  then show ?thesis by (simp add: preserves_def)
qed

lemma preserves_rel:
  assumes "io_rel R m" "\<And>w w'. R w w' \<Longrightarrow> I w \<Longrightarrow> I w'"
  shows "preserves I m"
  using assms by (auto simp: preserves_def io_rel_def)

subsection \<open>Lists of sessions with at most one active session per conversation\<close>

lemma length_filter_map_le:
  assumes "\<And>x. P (f x) \<Longrightarrow> Q x"
  shows "length (filter P (map f xs)) \<le> length (filter Q xs)"
  using assms by (induction xs) auto

lemma one_active_deactivate_in: "one_active ss \<Longrightarrow> one_active (deactivate_in D ss)"
proof -
  assume a: "one_active ss"
  have "length (filter (\<lambda>s. sess_conversation_id s = cid \<and> active s) (deactivate_in D ss))
        \<le> length (filter (\<lambda>s. sess_conversation_id s = cid \<and> active s) ss)" for cid
    unfolding deactivate_in_def by (rule length_filter_map_le) (auto split: if_splits)
  with a show ?thesis unfolding one_active_def by (meson le_trans)
qed

lemma length_active_filter:
  "length (filter (\<lambda>s. sess_conversation_id s = cid \<and> active s) xs)
   = length (filter (\<lambda>p. fst p = cid \<and> snd p)
               (map (\<lambda>s. (sess_conversation_id s, active s)) xs))"
  by (induction xs) auto

lemma one_active_flags:
  assumes "map (\<lambda>s. (sess_conversation_id s, active s)) ss'
           = map (\<lambda>s. (sess_conversation_id s, active s)) ss"
    and "one_active ss"
  shows "one_active ss'"
  using assms unfolding one_active_def length_active_filter by simp

lemma two_in_filter:
  assumes "x \<in> set xs" "y \<in> set xs" "x \<noteq> y" "P x" "P y"
  shows "2 \<le> length (filter P xs)"
proof -
  have "{x, y} \<subseteq> set (filter P xs)" using assms by simp
  then have "card {x, y} \<le> card (set (filter P xs))" by (simp add: card_mono)
  also have "\<dots> \<le> length (filter P xs)" by (rule card_length)
  finally show ?thesis using assms(3) by simp
qed

lemma one_active_new_session:
  assumes "find (\<lambda>s. sess_conversation_id s = cid \<and> active s) ss = None"
    and "one_active ss" and "sess_conversation_id new = cid"
  shows "one_active (ss @ [new])"
proof -
  have "filter (\<lambda>s. sess_conversation_id s = cid \<and> active s) ss = []"
    using assms(1) by (auto simp: find_None_iff filter_empty_conv)
  with assms(2,3) show ?thesis
    unfolding one_active_def by (auto)
qed

lemma one_active_rotate:
  assumes f: "find (\<lambda>s. sess_conversation_id s = cid \<and> active s) ss = Some r"
    and o: "one_active ss" and n: "sess_conversation_id new = cid"
  shows "one_active (deactivate_in {sess_id r} ss @ [new])"
proof -
  let ?P = "\<lambda>s. sess_conversation_id s = cid \<and> active s"
  have r: "r \<in> set ss" "?P r"
    using f by (auto simp: find_Some_iff)
  have none: "\<not> ?P x" if "x \<in> set (deactivate_in {sess_id r} ss)" for x
  proof
    assume p: "?P x"
    from that obtain y where y: "y \<in> set ss"
        and x: "x = (if sess_id y \<in> {sess_id r} then y\<lparr>active := False\<rparr> else y)"
      by (auto simp: deactivate_in_def)
    with p have "sess_id y \<noteq> sess_id r" "?P y" by (auto split: if_splits)
    then have "2 \<le> length (filter ?P ss)"
      using two_in_filter [of y ss r ?P] y r by auto
    with o show False unfolding one_active_def by (metis not_numeral_le_zero numeral_le_one_iff semiring_norm(69) le_trans)
  qed
  then have "find ?P (deactivate_in {sess_id r} ss) = None"
    by (auto simp: find_None_iff)
  then show ?thesis
    using one_active_deactivate_in [OF o] n by (rule one_active_new_session)
qed

lemma stable_flags_kept: "stable flags_kept"
  by (simp add: stable_def flags_kept_def)

lemma same_imp_flags_kept: "same_sessions_queries w w' \<Longrightarrow> flags_kept w w'"
  by (simp add: same_sessions_queries_def flags_kept_def)

lemma flags_same: "io_rel same_sessions_queries m \<Longrightarrow> io_rel flags_kept m"
  by (erule io_rel_mono) (rule same_imp_flags_kept)

lemma flags_updateSession: "io_rel flags_kept (updateSession env sid token)"
  unfolding updateSession_def
  by (rule io_rel_call [OF stable_flags_kept]) (simp add: flags_kept_def comp_def)

lemma flags_updateSessionMetadata: "io_rel flags_kept (updateSessionMetadata env sid k v)"
  unfolding updateSessionMetadata_def
  by (rule io_rel_call [OF stable_flags_kept]) (simp add: flags_kept_def comp_def)

lemma flags_openQuery: "io_rel flags_kept (openQuery env client prompt cwd tok)"
  unfolding openQuery_def
  by (rule io_rel_call [OF stable_flags_kept]) (simp add: flags_kept_def)

named_theorems flags_intros

lemmas [flags_intros] =
  io_rel_return [OF stable_flags_kept]
  io_rel_throw [OF stable_flags_kept]
  io_rel_bind [OF stable_flags_kept]
  io_rel_catch [OF stable_flags_kept]
  flags_updateSession flags_updateSessionMetadata flags_openQuery
  same_sendMessage [THEN flags_same]
  quiet_collaborators [THEN same_quiet, THEN flags_same]

lemma flags_streamChunk: "io_rel flags_kept (streamChunk env cid session msg)"
  unfolding streamChunk_def formatToolCall_io_def by (auto intro!: flags_intros)

lemma flags_forAwait:
  assumes "\<And>msg. io_rel flags_kept (body msg)"
  shows "io_rel flags_kept (forAwait body chunks)"
  using assms by (induction chunks) (auto intro!: flags_intros)

lemma flags_batchChunk: "io_rel flags_kept (batchChunk env session msg acc)"
  unfolding batchChunk_def formatToolCall_io_def by (auto intro!: flags_intros)

lemma flags_batchLoop: "io_rel flags_kept (batchLoop env session chunks acc)"
  by (induction chunks arbitrary: acc) (auto intro!: flags_intros flags_batchChunk)

lemma flags_streamEnd: "io_rel flags_kept (streamEnd err)"
  unfolding streamEnd_def by (auto intro!: flags_intros split: option.split)

lemma flags_streamMode: "io_rel flags_kept (streamMode env cid client session prompt cwd)"
  unfolding streamMode_def
  by (auto intro!: flags_intros flags_forAwait flags_streamChunk flags_streamEnd)

lemma flags_batchMode: "io_rel flags_kept (batchMode env cid client session prompt cwd)"
  unfolding batchMode_def
  by (auto intro!: flags_intros flags_batchLoop flags_streamEnd)

lemma inv_flags_kept: "flags_kept w w' \<Longrightarrow> sessions_ok w \<Longrightarrow> sessions_ok w'"
  unfolding flags_kept_def by (rule one_active_flags)

lemma inv_only_deactivates: "only_deactivates w w' \<Longrightarrow> sessions_ok w \<Longrightarrow> sessions_ok w'"
  unfolding only_deactivates_def using one_active_deactivate_in by auto

lemma preserves_flags: "io_rel flags_kept m \<Longrightarrow> preserves sessions_ok m"
  by (erule preserves_rel) (rule inv_flags_kept)

lemma preserves_only: "io_rel only_deactivates m \<Longrightarrow> preserves sessions_ok m"
  by (erule preserves_rel) (rule inv_only_deactivates)

lemma deactivate_map:
  "map (\<lambda>s. if sess_id s = sid then s\<lparr>active := False\<rparr> else s) ss = deactivate_in {sid} ss"
  by (simp add: deactivate_in_def)

lemma preserves_resolveSession: "preserves sessions_ok (resolveSession env c cn)"
proof -
  have "sessions_ok (snd (resolveSession env c cn w))" if i: "sessions_ok w" for w
  proof -
    let ?P = "\<lambda>s. sess_conversation_id s = conv_id c \<and> active s"
    have new: "sessions_ok (snd (newSession env c w'))"
      if "find ?P (sessions w') = None" "sessions_ok w'" for w'
      using that
      by (auto simp: newSession_def createSession_def call_def Let_def
               intro: one_active_new_session split: option.split)
    have rot: "sessions_ok (snd (io_bind (deactivateSession env (sess_id r)) (\<lambda>_. newSession env c) w'))"
      if "find ?P (sessions w') = Some r" "sessions_ok w'" for w' r
      using that
      by (auto simp: newSession_def createSession_def deactivateSession_def call_def Let_def
                 io_bind_def deactivate_map
               intro: one_active_rotate one_active_deactivate_in split: option.split)
    show ?thesis
    proof (cases "fault env (GetActiveSession (conv_id c)) w")
      case (Some e)
      with i show ?thesis
        by (simp add: resolveSession_def getActiveSession_def call_def io_bind_def)
    next
      case None
      note ga = None
      show ?thesis
      proof (cases "fault env (GetCodebase (or_else (conv_codebase_id c) [])) (tick w)")
        case (Some e)
        with i ga show ?thesis
          by (simp add: resolveSession_def getActiveSession_def getCodebase_def call_def
                io_bind_def)
      next
        case None
        let ?w2 = "tick (tick w)"
        have i2: "sessions_ok ?w2" using i by simp
        show ?thesis
        proof (cases "find ?P (sessions w)")
          case fnone: None
          then have "needsNewSession cn None = False"
            by (simp add: needsNewSession_def lastCommand_def)
          moreover have "sessions_ok (snd (newSession env c ?w2))"
            using new [of ?w2] fnone i2 by simp
          ultimately show ?thesis
            using ga None fnone
            by (cases "newSession env c ?w2")
               (auto simp: resolveSession_def getActiveSession_def getCodebase_def call_def
                  io_bind_def io_return_def Let_def split: sum.split)
        next
          case (Some r)
          have "sessions_ok (snd (io_bind (deactivateSession env (sess_id r)) (\<lambda>_. newSession env c) ?w2))"
            using rot [of ?w2 r] Some i2 by simp
          then show ?thesis
            using ga None Some i2
            by (cases "io_bind (deactivateSession env (sess_id r)) (\<lambda>_. newSession env c) ?w2")
               (auto simp: resolveSession_def getActiveSession_def getCodebase_def call_def
                  io_bind_def io_return_def Let_def split: sum.splits prod.splits)
        qed
      qed
    qed
  qed
  then show ?thesis by (simp add: preserves_def)
qed

lemma preserves_aiConversation: "preserves sessions_ok (aiConversation env cid c prompt cn)"
  unfolding aiConversation_def getAssistantClient_def
  by (auto intro!: preserves_bind preserves_resolveSession preserves_return
        quiet_pure_call [THEN same_quiet, THEN flags_same, THEN preserves_flags]
        flags_streamMode [THEN preserves_flags] flags_batchMode [THEN preserves_flags]
        flags_updateSessionMetadata [THEN preserves_flags])

lemma preserves_handleCommand: "preserves sessions_ok (handleCommand env c message)"
  by (intro preserves_only command_handleCommand [THEN only_command])

lemma preserves_handleMessage: "preserves sessions_ok (handleMessage env cid message ctx)"
  unfolding handleMessage_def handleMessageBody_def Let_def
  by (auto intro!: preserves_catch preserves_bind preserves_return preserves_handleCommand
        preserves_aiConversation
        quiet_getOrCreateConversation [THEN same_quiet, THEN flags_same, THEN preserves_flags]
        same_sendMessage [THEN flags_same, THEN preserves_flags]
        same_resolvePrompt [THEN flags_same, THEN preserves_flags]
      split: option.split)

text \<open>
  C3. If every conversation has at most one active session, then it has at most one
  after handleMessage has handled a message, whatever the message, the environment and
  the way the handling ends; and after the command handler has handled a command,
  \<^verbatim>\<open>/reset\<close>, \<^verbatim>\<open>/setcwd\<close> and \<^verbatim>\<open>/clone\<close> among them. The command handler
  creates no session; handleMessage creates one only when the conversation has no
  active session, or after it has deactivated the one there was.
\<close>

theorem one_active_session_invariant:
  assumes "one_active (sessions w)"
  shows "one_active (sessions (snd (handleMessage env cid message ctx w)))
     \<and> one_active (sessions (snd (handleCommand env conversation message w)))"
  using assms preservesD [OF preserves_handleMessage] preservesD [OF preserves_handleCommand]
  by blast

text \<open>
  The rotation from plan to execute leaves the old session inactive and the new one
  active; \<^verbatim>\<open>/setcwd\<close> leaves the session inactive.
\<close>

theorem one_active_session_invariant_witness:
  "one_active (sessions planned_world)
   \<and> one_active (sessions (snd (handleMessage (example_env (js ''stream'') [result_chunk (js ''tok2'')])
                                  (js ''chat'') (js ''/command-invoke execute'') None planned_world)))
   \<and> one_active (sessions (snd (handleCommand (example_env (js ''stream'') []) example_conversation
                                  (js ''/setcwd /workspace/other'') planned_world)))
   \<and> map (\<lambda>s. (sess_conversation_id s, active s))
         (sessions (snd (handleMessage (example_env (js ''stream'') [result_chunk (js ''tok2'')])
                           (js ''chat'') (js ''/command-invoke execute'') None planned_world)))
       = [(js ''c1'', False), (js ''c1'', True)]
   \<and> map (\<lambda>s. (sess_conversation_id s, active s))
         (sessions (snd (handleCommand (example_env (js ''stream'') []) example_conversation
                           (js ''/setcwd /workspace/other'') planned_world)))
       = [(js ''c1'', False)]"
proof -
  have o: "one_active (sessions planned_world)"
    by (simp add: one_active_def planned_world_def)
  have a: "map (\<lambda>s. (sess_conversation_id s, active s))
         (sessions (snd (handleMessage (example_env (js ''stream'') [result_chunk (js ''tok2'')])
                           (js ''chat'') (js ''/command-invoke execute'') None planned_world)))
       = [(js ''c1'', False), (js ''c1'', True)]"
    by code_simp
  have b: "map (\<lambda>s. (sess_conversation_id s, active s))
         (sessions (snd (handleCommand (example_env (js ''stream'') []) example_conversation
                           (js ''/setcwd /workspace/other'') planned_world)))
       = [(js ''c1'', False)]"
    by code_simp
  from one_active_session_invariant [OF o] a b o show ?thesis
    by blast
qed

section \<open>The admission controller: one unit per key, in arrival order\<close>

lemma chain_of_other [simp]:
  "chain_of (m\<lparr>executing := e\<rparr>) k = chain_of m k"
  "chain_of (m\<lparr>submitted := s\<rparr>) k = chain_of m k"
  "chain_of (m\<lparr>started := s\<rparr>) k = chain_of m k"
  "chain_of (m\<lparr>settled := s\<rparr>) k = chain_of m k"
  "chain_of (m\<lparr>next_unit := n\<rparr>) k = chain_of m k"
  by (simp_all add: chain_of_def)

lemma units_of_append: "units_of k (h @ [(k', u)]) = units_of k h @ (if k' = k then [u] else [])"
  by (simp add: units_of_def)

lemma units_of_removeAll_other:
  "k' \<noteq> k \<Longrightarrow> units_of k' (removeAll (k, u) h) = units_of k' h"
  by (induction h) (auto simp: units_of_def)

lemma lock_inv_new: "lock_inv (new_lock_manager n)"
  by (simp add: lock_inv_def new_lock_manager_def chain_of_def units_of_def)

text \<open>The executing units of a key: none, or the head of its chain.\<close>

lemma executing_of_key:
  assumes d: "distinct (executing m)"
    and h: "\<And>k u. (k, u) \<in> set (executing m) \<Longrightarrow> \<exists>rest. chain_of m k = u # rest"
  shows "filter (\<lambda>p. fst p = k) (executing m)
         = (if (k, hd (chain_of m k)) \<in> set (executing m) then [(k, hd (chain_of m k))] else [])"
proof -
  have sub: "set (filter (\<lambda>p. fst p = k) (executing m)) \<subseteq> {(k, hd (chain_of m k))}"
    using h by fastforce
  have dist: "distinct (filter (\<lambda>p. fst p = k) (executing m))"
    using d by simp
  show ?thesis
  proof (cases "filter (\<lambda>p. fst p = k) (executing m)")
    case Nil
    then have "(k, hd (chain_of m k)) \<notin> set (executing m)"
      by (auto simp: filter_empty_conv)
    with Nil show ?thesis by simp
  next
    case (Cons p ps)
    with sub have p: "p = (k, hd (chain_of m k))" and ps: "set ps \<subseteq> {p}"
      by auto
    from dist Cons have "p \<notin> set ps" by simp
    with ps have e: "ps = []" by (cases ps) auto
    have "p \<in> set (filter (\<lambda>p. fst p = k) (executing m))"
      using Cons by simp
    then have "p \<in> set (executing m)"
      by simp
    with Cons p e show ?thesis by simp
  qed
qed

lemma lock_inv_acquireLock:
  assumes "lock_inv m" "acquireLock m k = Inr m'"
  shows "lock_inv m'"
proof -
  have m': "m' = m\<lparr>chains := AList.update k (chain_of m k @ [next_unit m]) (chains m),
                  submitted := submitted m @ [(k, next_unit m)],
                  next_unit := Suc (next_unit m)\<rparr>"
    using assms(2) by (auto simp: acquireLock_def split: if_splits)
  have c: "chain_of m' k' = (if k' = k then chain_of m k @ [next_unit m] else chain_of m k')" for k'
    unfolding m' by (simp add: chain_of_def update_conv')
  have e: "executing m' = executing m" "settled m' = settled m" "started m' = started m"
          "submitted m' = submitted m @ [(k, next_unit m)]"
    unfolding m' by simp_all
  have d: "distinct (executing m)"
    and h: "\<And>k u. (k, u) \<in> set (executing m) \<Longrightarrow> \<exists>rest. chain_of m k = u # rest"
    and f: "\<And>k. units_of k (submitted m) = units_of k (settled m) @ chain_of m k"
    and g: "\<And>k. units_of k (started m) = units_of k (settled m) @ units_of k (executing m)"
    using assms(1) by (auto simp: lock_inv_def)
  have "\<exists>rest. chain_of m' k' = u # rest" if "(k', u) \<in> set (executing m')" for k' u
    using h [of k' u] that unfolding e c by auto
  moreover have "units_of k' (submitted m') = units_of k' (settled m') @ chain_of m' k'" for k'
    using f [of k'] unfolding e c units_of_append by simp
  ultimately show ?thesis
    using d g unfolding lock_inv_def e by blast
qed

lemma lock_inv_start:
  assumes "lock_inv m" "start m k = Some m'"
  shows "lock_inv m'"
proof -
  obtain u rest where ch: "chain_of m k = u # rest"
      and nin: "(k, u) \<notin> set (executing m)"
      and m': "m' = m\<lparr>executing := executing m @ [(k, u)], started := started m @ [(k, u)]\<rparr>"
    using assms(2) by (auto simp: start_def split: list.splits if_splits)
  have d: "distinct (executing m)"
    and h: "\<And>k u. (k, u) \<in> set (executing m) \<Longrightarrow> \<exists>rest. chain_of m k = u # rest"
    and f: "\<And>k. units_of k (submitted m) = units_of k (settled m) @ chain_of m k"
    and g: "\<And>k. units_of k (started m) = units_of k (settled m) @ units_of k (executing m)"
    using assms(1) by (auto simp: lock_inv_def)
  have c: "chain_of m' k' = chain_of m k'" for k'
    unfolding m' by simp
  have e: "executing m' = executing m @ [(k, u)]" "settled m' = settled m"
          "submitted m' = submitted m" "started m' = started m @ [(k, u)]"
    unfolding m' by simp_all
  have "\<exists>rest. chain_of m' k' = u' # rest" if "(k', u') \<in> set (executing m')" for k' u'
    using h [of k' u'] that ch unfolding e c by auto
  moreover have "distinct (executing m')"
    using d nin unfolding e by simp
  moreover have "units_of k' (started m') = units_of k' (settled m') @ units_of k' (executing m')"
    for k'
    using g [of k'] unfolding e units_of_append by simp
  ultimately show ?thesis
    using f unfolding lock_inv_def e c by blast
qed

lemma lock_inv_settle:
  assumes "lock_inv m" "settle m k = Some m'"
  shows "lock_inv m'"
proof -
  obtain u rest where ch: "chain_of m k = u # rest"
      and ex: "(k, u) \<in> set (executing m)"
      and m': "m' = m\<lparr>executing := removeAll (k, u) (executing m),
                       chains := (if rest = [] then AList.delete k (chains m)
                                  else AList.update k rest (chains m)),
                       settled := settled m @ [(k, u)]\<rparr>"
    using assms(2) by (auto simp: settle_def split: list.splits if_splits)
  have d: "distinct (executing m)"
    and h: "\<And>k u. (k, u) \<in> set (executing m) \<Longrightarrow> \<exists>rest. chain_of m k = u # rest"
    and f: "\<And>k. units_of k (submitted m) = units_of k (settled m) @ chain_of m k"
    and g: "\<And>k. units_of k (started m) = units_of k (settled m) @ units_of k (executing m)"
    using assms(1) by (auto simp: lock_inv_def)
  have c: "chain_of m' k' = (if k' = k then rest else chain_of m k')" for k'
    unfolding m' by (simp add: chain_of_def update_conv' delete_conv')
  have e: "executing m' = removeAll (k, u) (executing m)" "settled m' = settled m @ [(k, u)]"
          "submitted m' = submitted m" "started m' = started m"
    unfolding m' by simp_all
  have one: "units_of k (executing m) = [u]"
    using executing_of_key [OF d h, of k] ex ch by (simp add: units_of_def)
  have gone: "units_of k (removeAll (k, u) (executing m)) = []"
  proof -
    have "filter (\<lambda>p. fst p = k) (executing m) = [(k, u)]"
      using executing_of_key [OF d h, of k] ex ch by simp
    then have "set (filter (\<lambda>p. fst p = k) (executing m)) = {(k, u)}"
      by simp
    then have "\<And>p. p \<in> set (executing m) \<Longrightarrow> fst p = k \<Longrightarrow> p = (k, u)"
      by auto
    then show ?thesis
      by (auto simp: units_of_def filter_empty_conv)
  qed
  have "\<exists>r. chain_of m' k' = u' # r" if "(k', u') \<in> set (executing m')" for k' u'
  proof -
    from that have in_m: "(k', u') \<in> set (executing m)" and ne: "(k', u') \<noteq> (k, u)"
      unfolding e by auto
    show ?thesis
    proof (cases "k' = k")
      case True
      with h [OF in_m] ch have "u' = u" by simp
      with True ne show ?thesis by simp
    next
      case False
      with h [OF in_m] show ?thesis unfolding c by simp
    qed
  qed
  moreover have "distinct (executing m')"
    using d unfolding e by (simp add: distinct_removeAll)
  moreover have "units_of k' (submitted m') = units_of k' (settled m') @ chain_of m' k'" for k'
    using f [of k'] ch unfolding e c units_of_append by simp
  moreover have "units_of k' (started m') = units_of k' (settled m') @ units_of k' (executing m')"
    for k'
  proof (cases "k' = k")
    case True
    with g [of k] one gone show ?thesis unfolding e units_of_append by simp
  next
    case False
    with g [of k'] show ?thesis
      unfolding e units_of_append by (simp add: units_of_removeAll_other)
  qed
  ultimately show ?thesis
    unfolding lock_inv_def by blast
qed

lemma lock_inv_step:
  assumes "lock_inv m" "lock_step m ev = Some m'"
  shows "lock_inv m'"
proof (cases ev)
  case (Acquire k)
  with assms show ?thesis
    by (cases "acquireLock m k") (auto intro: lock_inv_acquireLock)
next
  case (Start k)
  with assms show ?thesis by (auto intro: lock_inv_start)
next
  case (Settle k ok)
  with assms show ?thesis by (auto intro: lock_inv_settle)
qed

lemma lock_inv_run:
  "lock_inv m \<Longrightarrow> lock_run m evs = Some m' \<Longrightarrow> lock_inv m'"
proof (induction evs arbitrary: m)
  case Nil
  then show ?case by simp
next
  case (Cons ev evs)
  then show ?case
    by (auto split: option.splits dest: lock_inv_step)
qed

text \<open>
  C1. In every state that an interleaving of calls, starts and completions leads to,
  for calls under whatever keys, and for every key: at most one unit of the key
  executes; the units of the key that have started are its settled units, in the order
  in which they settled, followed by the unit that executes, so that a unit starts only
  when every unit started before it under the key has settled; and the units submitted
  under the key are its settled units, in the order in which they settled, followed by
  the units that wait in its chain, so that the units settle in the order of their
  submission.
\<close>

theorem per_key_exclusion_and_fifo:
  assumes "lock_run (new_lock_manager n) evs = Some m"
  shows "length (units_of k (executing m)) \<le> 1
     \<and> units_of k (started m) = units_of k (settled m) @ units_of k (executing m)
     \<and> units_of k (submitted m) = units_of k (settled m) @ chain_of m k"
proof -
  have i: "lock_inv m"
    using lock_inv_new assms by (rule lock_inv_run)
  then have d: "distinct (executing m)"
    and h: "\<And>k u. (k, u) \<in> set (executing m) \<Longrightarrow> \<exists>rest. chain_of m k = u # rest"
    by (auto simp: lock_inv_def)
  have "length (units_of k (executing m)) \<le> 1"
    using executing_of_key [OF d h, of k] by (simp add: units_of_def)
  with i show ?thesis
    by (simp add: lock_inv_def)
qed

text \<open>
  Two calls under one key and one under another, with two permits: the second unit of
  the first key starts after the first has failed, and the units of the key settle in
  the order of their submission. The second unit of a key cannot start while the first
  executes, and it cannot settle before it has started.
\<close>

theorem per_key_exclusion_and_fifo_witness:
  "lock_run (new_lock_manager 2) example_interleaving
     = Some \<lparr>maxConcurrent = 2, chains = [], executing = [],
             submitted = [(js ''a'', 0), (js ''a'', 1), (js ''b'', 2)],
             started = [(js ''a'', 0), (js ''b'', 2), (js ''a'', 1)],
             settled = [(js ''a'', 0), (js ''b'', 2), (js ''a'', 1)], next_unit = 3\<rparr>
   \<and> units_of (js ''a'') [(js ''a'', 0), (js ''a'', 1), (js ''b'', 2)] = [0, 1]
   \<and> units_of (js ''a'') [(js ''a'', 0), (js ''b'', 2), (js ''a'', 1)] = [0, 1]
   \<and> lock_run (new_lock_manager 2)
         [Acquire (js ''a''), Acquire (js ''a''), Start (js ''a''), Start (js ''a'')] = None
   \<and> lock_run (new_lock_manager 2)
         [Acquire (js ''a''), Acquire (js ''a''), Start (js ''a''), Settle (js ''a'') True,
          Settle (js ''a'') True] = None"
proof -
  let ?m = "\<lparr>maxConcurrent = 2, chains = [], executing = [],
             submitted = [(js ''a'', 0), (js ''a'', 1), (js ''b'', 2)],
             started = [(js ''a'', 0), (js ''b'', 2), (js ''a'', 1)],
             settled = [(js ''a'', 0), (js ''b'', 2), (js ''a'', 1)], next_unit = 3\<rparr>"
  have r: "lock_run (new_lock_manager 2) example_interleaving = Some ?m"
    by code_simp
  have u: "units_of (js ''a'') [(js ''a'', 0), (js ''a'', 1), (js ''b'', 2)] = [0, 1]"
    by code_simp
  have n1: "lock_run (new_lock_manager 2)
         [Acquire (js ''a''), Acquire (js ''a''), Start (js ''a''), Start (js ''a'')] = None"
    by code_simp
  have n2: "lock_run (new_lock_manager 2)
         [Acquire (js ''a''), Acquire (js ''a''), Start (js ''a''), Settle (js ''a'') True,
          Settle (js ''a'') True] = None"
    by code_simp
  have c: "chain_of ?m (js ''a'') = []"
    by (simp add: chain_of_def)
  from per_key_exclusion_and_fifo [OF r, of "js ''a''"] c
  have "units_of (js ''a'') [(js ''a'', 0), (js ''b'', 2), (js ''a'', 1)] = [0, 1]"
    using u by simp
  with r u n1 n2 show ?thesis
    by simp
qed

end
